theory Spec2Isabelle
  imports Main "HOL-Library.Word"
begin

section \<open>Terms of the sequence theory\<close>

text \<open>
  The rewriter of \<^verbatim>\<open>seq_rewriter.cpp\<close> works on the host's hash-consed terms: an
  \<^verbatim>\<open>expr\<close> is an application of a function declaration to an ordered list of
  children, and two terms are the same pointer exactly when they are structurally equal.
  The model keeps that shape: a declaration kind (with its parameters, as the host stores
  them in the declaration) and a list of arguments. Sorts are not represented.
  A \<^verbatim>\<open>zstring\<close> is a vector of unsigned code points.
\<close>

type_synonym zstring = "nat list"

datatype decl =
    UNINTERPRETED string
  | OP_NUM int
  | OP_CHAR_CONST nat
  | OP_STRING_CONST zstring
  | OP_BV_NUM nat nat
  | OP_TRUE | OP_FALSE | OP_NOT | OP_AND | OP_OR | OP_EQ | OP_ITE
  | OP_ADD | OP_SUB | OP_MUL | OP_LE | OP_GE
  | OP_CHAR_LE
  | OP_SEQ_UNIT | OP_SEQ_EMPTY | OP_SEQ_CONCAT | OP_SEQ_LENGTH | OP_SEQ_AT
  | OP_SEQ_NTH_I | OP_SEQ_EXTRACT | OP_SEQ_PREFIX | OP_SEQ_SUFFIX | OP_SEQ_CONTAINS
  | OP_SEQ_IN_RE | OP_SEQ_TO_RE
  | OP_STRING_ITOS | OP_STRING_STOI | OP_STRING_UBVTOS | OP_STRING_LT
  | OP_UBV2INT
  | OP_RE_EMPTY_SET | OP_RE_FULL_SEQ_SET | OP_RE_FULL_CHAR_SET | OP_RE_RANGE
  | OP_RE_UNION | OP_RE_INTERSECT | OP_RE_DIFF | OP_RE_CONCAT | OP_RE_COMPLEMENT
  | OP_RE_STAR | OP_RE_PLUS | OP_RE_OPTION | OP_RE_LOOP "nat list" | OP_RE_POWER nat
  | OP_RE_REVERSE | OP_RE_OF_PRED | OP_RE_DERIVATIVE | OP_RE_ANTIMIROV_UNION
  | OP_SELECT

datatype expr = App decl "expr list"

text \<open>The status a rewrite returns; every status but \<^verbatim>\<open>BR_FAILED\<close> comes with the result term.\<close>

datatype br_status =
    BR_FAILED
  | BR_DONE expr
  | BR_REWRITE1 expr
  | BR_REWRITE2 expr
  | BR_REWRITE3 expr
  | BR_REWRITE_FULL expr

subsection \<open>Recognisers and constructors of the term utilities\<close>

text \<open>
  The recognisers \<^verbatim>\<open>str().is_unit(e, a)\<close>, \<^verbatim>\<open>m_autil.is_numeral(e, r)\<close>, ... of the
  host test the head declaration and the number of arguments and bind the children; they
  return \<open>Some\<close> of what they bind.
\<close>

definition is_app_of :: "expr \<Rightarrow> decl \<Rightarrow> nat \<Rightarrow> bool" where
  "is_app_of e k n = (case e of App d args \<Rightarrow> d = k \<and> length args = n)"

definition is_unary :: "decl \<Rightarrow> expr \<Rightarrow> expr option" where
  "is_unary k e = (case e of App d args \<Rightarrow>
     (case args of [a] \<Rightarrow> if d = k then Some a else None | _ \<Rightarrow> None))"

definition is_binary :: "decl \<Rightarrow> expr \<Rightarrow> (expr \<times> expr) option" where
  "is_binary k e = (case e of App d args \<Rightarrow>
     (case args of [a, b] \<Rightarrow> if d = k then Some (a, b) else None | _ \<Rightarrow> None))"

definition is_ternary :: "decl \<Rightarrow> expr \<Rightarrow> (expr \<times> expr \<times> expr) option" where
  "is_ternary k e = (case e of App d args \<Rightarrow>
     (case args of [a, b, c] \<Rightarrow> if d = k then Some (a, b, c) else None | _ \<Rightarrow> None))"

definition is_numeral :: "expr \<Rightarrow> int option" where
  "is_numeral e = (case e of App d args \<Rightarrow>
     (case d of OP_NUM r \<Rightarrow> if args = [] then Some r else None | _ \<Rightarrow> None))"

definition is_const_char :: "expr \<Rightarrow> nat option" where
  "is_const_char e = (case e of App d args \<Rightarrow>
     (case d of OP_CHAR_CONST c \<Rightarrow> if args = [] then Some c else None | _ \<Rightarrow> None))"

definition is_string :: "expr \<Rightarrow> zstring option" where
  "is_string e = (case e of App d args \<Rightarrow>
     (case d of OP_STRING_CONST s \<Rightarrow> if args = [] then Some s else None | _ \<Rightarrow> None))"

definition is_bv_numeral :: "expr \<Rightarrow> (nat \<times> nat) option" where
  "is_bv_numeral e = (case e of App d args \<Rightarrow>
     (case d of OP_BV_NUM v sz \<Rightarrow> if args = [] then Some (v, sz) else None | _ \<Rightarrow> None))"

definition is_unit_seq :: "expr \<Rightarrow> expr option" where
  "is_unit_seq = is_unary OP_SEQ_UNIT"

text \<open>
  \<^verbatim>\<open>str().is_empty\<close> holds of the empty sequence constant and of the string literal
  with no characters.
\<close>

definition is_empty :: "expr \<Rightarrow> bool" where
  "is_empty e = (is_app_of e OP_SEQ_EMPTY 0 \<or> is_string e = Some [])"

definition is_concat :: "expr \<Rightarrow> (expr \<times> expr) option" where
  "is_concat = is_binary OP_SEQ_CONCAT"

definition is_itos :: "expr \<Rightarrow> expr option" where
  "is_itos = is_unary OP_STRING_ITOS"

definition is_stoi :: "expr \<Rightarrow> expr option" where
  "is_stoi = is_unary OP_STRING_STOI"

definition is_ubv2s :: "expr \<Rightarrow> expr option" where
  "is_ubv2s = is_unary OP_STRING_UBVTOS"

definition is_at :: "expr \<Rightarrow> bool" where
  "is_at e = (is_binary OP_SEQ_AT e \<noteq> None)"

definition is_extract :: "expr \<Rightarrow> (expr \<times> expr \<times> expr) option" where
  "is_extract = is_ternary OP_SEQ_EXTRACT"

definition is_ite :: "expr \<Rightarrow> (expr \<times> expr \<times> expr) option" where
  "is_ite = is_ternary OP_ITE"

definition mk_var :: "string \<Rightarrow> expr" where
  "mk_var x = App (UNINTERPRETED x) []"

definition mk_int :: "int \<Rightarrow> expr" where
  "mk_int r = App (OP_NUM r) []"

definition zero :: expr where
  "zero = mk_int 0"

definition minus_one :: expr where
  "minus_one = mk_int (- 1)"

definition mk_char :: "nat \<Rightarrow> expr" where
  "mk_char c = App (OP_CHAR_CONST c) []"

definition mk_string :: "zstring \<Rightarrow> expr" where
  "mk_string s = App (OP_STRING_CONST s) []"

definition mk_true :: expr where
  "mk_true = App OP_TRUE []"

definition mk_false :: expr where
  "mk_false = App OP_FALSE []"

definition mk_bool_val :: "bool \<Rightarrow> expr" where
  "mk_bool_val b = (if b then mk_true else mk_false)"

definition mk_not :: "expr \<Rightarrow> expr" where
  "mk_not a = App OP_NOT [a]"

definition mk_and :: "expr list \<Rightarrow> expr" where
  "mk_and es = App OP_AND es"

definition mk_or :: "expr list \<Rightarrow> expr" where
  "mk_or es = App OP_OR es"

definition mk_eq :: "expr \<Rightarrow> expr \<Rightarrow> expr" where
  "mk_eq a b = App OP_EQ [a, b]"

definition mk_ite :: "expr \<Rightarrow> expr \<Rightarrow> expr \<Rightarrow> expr" where
  "mk_ite c t e = App OP_ITE [c, t, e]"

definition mk_ge :: "expr \<Rightarrow> expr \<Rightarrow> expr" where
  "mk_ge a b = App OP_GE [a, b]"

definition mk_add :: "expr \<Rightarrow> expr \<Rightarrow> expr" where
  "mk_add a b = App OP_ADD [a, b]"

definition mk_mul :: "expr \<Rightarrow> expr \<Rightarrow> expr" where
  "mk_mul a b = App OP_MUL [a, b]"

definition mk_empty :: expr where
  "mk_empty = App OP_SEQ_EMPTY []"

definition mk_unit :: "expr \<Rightarrow> expr" where
  "mk_unit a = App OP_SEQ_UNIT [a]"

definition mk_concat :: "expr \<Rightarrow> expr \<Rightarrow> expr" where
  "mk_concat a b = App OP_SEQ_CONCAT [a, b]"

definition mk_is_empty :: "expr \<Rightarrow> expr" where
  "mk_is_empty s = mk_eq s mk_empty"

definition mk_stoi :: "expr \<Rightarrow> expr" where
  "mk_stoi a = App OP_STRING_STOI [a]"

definition mk_itos :: "expr \<Rightarrow> expr" where
  "mk_itos a = App OP_STRING_ITOS [a]"

definition mk_ubv2int :: "expr \<Rightarrow> expr" where
  "mk_ubv2int a = App OP_UBV2INT [a]"

definition mk_lex_lt :: "expr \<Rightarrow> expr \<Rightarrow> expr" where
  "mk_lex_lt a b = App OP_STRING_LT [a, b]"

section \<open>Character codes and lexicographic comparison\<close>

text \<open>
  \<^verbatim>\<open>mk_str_from_code\<close>. The largest character \<^verbatim>\<open>u().max_char()\<close> is a constant of
  the host and a parameter here.
\<close>

definition mk_str_from_code :: "nat \<Rightarrow> expr \<Rightarrow> br_status" where
  "mk_str_from_code max_char a =
     (case is_numeral a of
        Some r \<Rightarrow>
          if r < 0 \<or> r > int max_char then BR_DONE (mk_string [])
          else BR_DONE (mk_string [nat r])
      | None \<Rightarrow> BR_FAILED)"

definition mk_str_to_code :: "expr \<Rightarrow> br_status" where
  "mk_str_to_code a =
     (case is_string a of
        Some s \<Rightarrow>
          if length s = 1 then BR_DONE (mk_int (int (s ! 0)))
          else BR_DONE minus_one
      | None \<Rightarrow> BR_FAILED)"

text \<open>
  The loop of \<^verbatim>\<open>mk_str_lt\<close> over the first \<open>min (length as) (length bs)\<close> positions:
  it returns at the first position where the two strings differ.
\<close>

fun lt_loop :: "zstring \<Rightarrow> zstring \<Rightarrow> bool" where
  "lt_loop (x # xs) (y # ys) =
     (if x < y then True else if x > y then False else lt_loop xs ys)"
| "lt_loop xs ys = (length xs < length ys)"

definition mk_str_lt :: "expr \<Rightarrow> expr \<Rightarrow> br_status" where
  "mk_str_lt a b =
     (if is_empty b then BR_DONE mk_false
      else if is_empty a then BR_REWRITE1 (mk_not (mk_eq a b))
      else (case (is_string a, is_string b) of
              (Some as, Some bs) \<Rightarrow> BR_DONE (mk_bool_val (lt_loop as bs))
            | _ \<Rightarrow> BR_FAILED))"

section \<open>The length analyzer\<close>

lemma is_unary_SomeD: "is_unary k e = Some x \<Longrightarrow> e = App k [x]"
  by (auto simp: is_unary_def split: expr.splits list.splits if_splits)

lemma is_binary_SomeD: "is_binary k e = Some (x, y) \<Longrightarrow> e = App k [x, y]"
  by (auto simp: is_binary_def split: expr.splits list.splits if_splits)

lemma is_ternary_SomeD: "is_ternary k e = Some (x, y, z) \<Longrightarrow> e = App k [x, y, z]"
  by (auto simp: is_ternary_def split: expr.splits list.splits if_splits)

lemma size_expr_pos [simp]: "0 < size (e::expr)"
  by (cases e) simp

lemma is_concat_size: "is_concat e = Some (x, y) \<Longrightarrow> size x + size y < size e"
  by (auto simp: is_concat_def dest!: is_binary_SomeD)

text \<open>
  \<^verbatim>\<open>max_length\<close>: a stack of terms still to be measured (the head of the list is the
  back of the buffer) and the length accumulated so far, a rational in the source and an
  integer here. A concatenation pushes its arguments in order; a term of no known shape
  ends the loop with the answer unbounded.
\<close>

function max_length_loop :: "expr list \<Rightarrow> int \<Rightarrow> bool \<times> int" where
  "max_length_loop [] len = (True, len)"
| "max_length_loop (e # es) len =
     (if is_unit_seq e \<noteq> None then max_length_loop es (len + 1)
      else if is_at e then max_length_loop es (len + 1)
      else (case is_string e of
        Some s \<Rightarrow> max_length_loop es (len + int (length s))
      | None \<Rightarrow>
         (case (case is_extract e of
                  Some (s1, i, l) \<Rightarrow>
                    (case is_numeral l of
                       Some n \<Rightarrow> if \<not> n < 0 then Some n else None
                     | None \<Rightarrow> None)
                | None \<Rightarrow> None) of
            Some n \<Rightarrow> max_length_loop es (len + n)
          | None \<Rightarrow>
             if is_empty e then max_length_loop es len
             else (case is_concat e of
                     Some (x, y) \<Rightarrow> max_length_loop (y # x # es) len
                   | None \<Rightarrow> (False, len)))))"
  by pat_completeness auto
termination
  by (relation "measure (\<lambda>(es, len). sum_list (map size es))")
     (auto dest: is_concat_size)

definition max_length :: "expr \<Rightarrow> bool \<times> int" where
  "max_length e = max_length_loop [e] 0"

text \<open>
  \<^verbatim>\<open>min_length\<close> counts in \<^verbatim>\<open>unsigned\<close>, a 32-bit word whose addition wraps.
  For an if-then-else it evaluates both branches with \<^verbatim>\<open>visit\<close>, which memoises
  its answers in \<^verbatim>\<open>cache\<close> and keeps the terms still to be visited on the stack
  \<^verbatim>\<open>sub\<close> (the head of the list is the back of the buffer). \<^verbatim>\<open>visit\<close> answers
  \<open>True\<close> when the term is in the cache on return, and \<open>False\<close> when it has pushed the
  arguments that are not cached yet.
\<close>

type_synonym len_cache = "expr \<Rightarrow> (bool \<times> 32 word) option"

definition cache_get :: "len_cache \<Rightarrow> expr \<Rightarrow> bool \<times> 32 word" where
  "cache_get cache e = (case cache e of Some r \<Rightarrow> r | None \<Rightarrow> (False, 0))"

definition visit :: "expr \<Rightarrow> len_cache \<Rightarrow> expr list \<Rightarrow> bool \<times> len_cache \<times> expr list" where
  "visit e cache sub =
     (if cache e \<noteq> None then (True, cache, sub)
      else if is_unit_seq e \<noteq> None then (True, cache(e \<mapsto> (True, 1)), sub)
      else if is_empty e then (True, cache(e \<mapsto> (True, 0)), sub)
      else (case is_string e of
        Some s \<Rightarrow> (True, cache(e \<mapsto> (True, of_nat (length s))), sub)
      | None \<Rightarrow>
         (case is_concat e of
            Some (x, y) \<Rightarrow>
              (let (res1, sub1, visited1) =
                     (case cache x of
                        Some r \<Rightarrow> ((True \<and> fst r, 0 + snd r), sub, True)
                      | None \<Rightarrow> ((True, 0), x # sub, False));
                   (res2, sub2, visited2) =
                     (case cache y of
                        Some r \<Rightarrow> ((fst res1 \<and> fst r, snd res1 + snd r), sub1, visited1)
                      | None \<Rightarrow> (res1, y # sub1, False))
               in if visited2 then (True, cache(e \<mapsto> res2), sub2)
                  else (False, cache, sub2))
          | None \<Rightarrow>
             (case is_ite e of
                Some (c, th, el) \<Rightarrow>
                  (let r1 = cache_get cache th;
                       sub1 = (if cache th = None then th # sub else sub);
                       r2 = cache_get cache el;
                       sub2 = (if cache el = None then el # sub1 else sub1)
                   in if length sub \<noteq> length sub2 then (False, cache, sub2)
                      else (True,
                            cache(e \<mapsto> (fst r1 \<and> fst r2 \<and> snd r1 = snd r2,
                                          min (snd r1) (snd r2))),
                            sub2))
              | None \<Rightarrow> (True, cache(e \<mapsto> (False, 0)), sub)))))"

text \<open>
  The loop \<^verbatim>\<open>while (!sub.empty()) { e = sub.back(); if (visit(e)) sub.pop_back(); }\<close>
  terminates: every round either caches the term on top of the stack and pops it, or
  pushes arguments of it that are not cached. The measure gives a term on the stack the
  weight 1 when it is cached, 2 when all its arguments are cached or above it on the
  stack, and otherwise its own size (three per node).
\<close>

fun node_weight :: "expr \<Rightarrow> nat" where
  "node_weight (App d args) = 3 + sum_list (map node_weight args)"

definition kids :: "expr \<Rightarrow> expr list" where
  "kids e = (case is_concat e of Some (x, y) \<Rightarrow> [x, y]
             | None \<Rightarrow> (case is_ite e of Some (c, th, el) \<Rightarrow> [th, el] | None \<Rightarrow> []))"

definition stack_weight :: "expr set \<Rightarrow> expr set \<Rightarrow> expr \<Rightarrow> nat" where
  "stack_weight D A e =
     (if e \<in> D then 1 else if set (kids e) \<subseteq> D \<union> A then 2 else node_weight e)"

fun stack_measure :: "expr set \<Rightarrow> expr set \<Rightarrow> expr list \<Rightarrow> nat" where
  "stack_measure D A [] = 0"
| "stack_measure D A (e # rest) = stack_weight D A e + stack_measure D (insert e A) rest"

lemma node_weight_ge3: "3 \<le> node_weight e"
  by (cases e) simp

lemma stack_weight_le: "stack_weight D A e \<le> node_weight e"
  using node_weight_ge3 [of e] by (simp add: stack_weight_def)

lemma stack_weight_pos: "0 < stack_weight D A e"
  using node_weight_ge3 [of e] by (simp add: stack_weight_def)

lemma stack_weight_mono:
  "D \<subseteq> D' \<Longrightarrow> D \<union> A \<subseteq> D' \<union> A' \<Longrightarrow> stack_weight D' A' e \<le> stack_weight D A e"
  using node_weight_ge3 [of e] by (auto simp: stack_weight_def)

lemma stack_measure_mono:
  "D \<subseteq> D' \<Longrightarrow> D \<union> A \<subseteq> D' \<union> A' \<Longrightarrow> stack_measure D' A' s \<le> stack_measure D A s"
proof (induction s arbitrary: A A')
  case Nil
  then show ?case by simp
next
  case (Cons e s)
  have "D \<union> insert e A \<subseteq> D' \<union> insert e A'" using Cons.prems by auto
  from Cons.IH [OF Cons.prems(1) this] stack_weight_mono [OF Cons.prems, of e]
  show ?case by simp
qed

lemma node_weight_kids: "sum_list (map node_weight (kids e)) + 3 \<le> node_weight e"
  using node_weight_ge3 [of e]
  by (auto simp: kids_def is_concat_def is_ite_def
      dest!: is_binary_SomeD is_ternary_SomeD split: option.splits)

lemma stack_measure_le: "stack_measure D A xs \<le> sum_list (map node_weight xs)"
proof (induction xs arbitrary: A)
  case Nil
  then show ?case by simp
next
  case (Cons x xs)
  from Cons.IH [of "insert x A"] stack_weight_le [of D A x] show ?case by simp
qed

lemma stack_measure_append:
  "stack_measure D A (xs @ ys) = stack_measure D A xs + stack_measure D (A \<union> set xs) ys"
  by (induction xs arbitrary: A) (simp_all add: insert_commute Un_commute)

lemma visit_True:
  assumes "visit e C S = (True, C', S')"
  shows "S' = S \<and> dom C' = insert e (dom C)"
  using assms
  by (auto simp: visit_def Let_def split: if_splits option.splits prod.splits)

lemma visit_False:
  assumes "visit e C S = (False, C', S')"
  shows "C' = C \<and> e \<notin> dom C \<and>
         (\<exists>ks. S' = ks @ S \<and> ks \<noteq> [] \<and> set ks \<inter> dom C = {}
            \<and> set ks \<subseteq> set (kids e) \<and> set (kids e) \<subseteq> dom C \<union> set ks
            \<and> sum_list (map node_weight ks) \<le> sum_list (map node_weight (kids e)))"
  using assms
  by (auto simp: visit_def Let_def kids_def split: if_splits option.splits prod.splits)

function visit_loop :: "len_cache \<Rightarrow> expr list \<Rightarrow> len_cache" where
  "visit_loop cache [] = cache"
| "visit_loop cache (e # sub) =
     (case visit e cache (e # sub) of
        (ok, cache', sub') \<Rightarrow>
          if ok then visit_loop cache' (tl sub') else visit_loop cache' sub')"
  by pat_completeness auto
termination
proof (relation "measure (\<lambda>(cache, sub). stack_measure (dom cache) {} sub)", goal_cases)
  case 1
  show ?case by simp
next
  case (2 cache e sub ok y cache' sub')
  then have v: "visit e cache (e # sub) = (True, cache', sub')" by simp
  from visit_True [OF v] have s: "sub' = e # sub" and d: "dom cache' = insert e (dom cache)"
    by simp_all
  have "stack_measure (dom cache') {} sub \<le> stack_measure (dom cache) {e} sub"
    by (rule stack_measure_mono) (auto simp: d)
  with stack_weight_pos [of "dom cache" "{}" e] show ?case by (simp add: s)
next
  case (3 cache e sub ok y cache' sub')
  then have v: "visit e cache (e # sub) = (False, cache', sub')" by simp
  from visit_False [OF v] obtain ks where c: "cache' = cache" and n: "e \<notin> dom cache"
    and s: "sub' = ks @ e # sub" and ne: "ks \<noteq> []" and dj: "set ks \<inter> dom cache = {}"
    and sk: "set ks \<subseteq> set (kids e)" and ks: "set (kids e) \<subseteq> dom cache \<union> set ks"
    and w: "sum_list (map node_weight ks) \<le> sum_list (map node_weight (kids e))"
    by blast
  from ne dj sk have "\<not> set (kids e) \<subseteq> dom cache \<union> {}"
    by (cases ks) auto
  with n have g0: "stack_weight (dom cache) {} e = node_weight e"
    by (simp add: stack_weight_def)
  from n ks have g1: "stack_weight (dom cache) (set ks) e = 2"
    by (simp add: stack_weight_def)
  have m: "stack_measure (dom cache) (insert e (set ks)) sub
           \<le> stack_measure (dom cache) {e} sub"
    by (rule stack_measure_mono) auto
  have "stack_measure (dom cache) {} (ks @ e # sub)
        = stack_measure (dom cache) {} ks
          + (stack_weight (dom cache) (set ks) e
             + stack_measure (dom cache) (insert e (set ks)) sub)"
    by (simp add: stack_measure_append)
  also have "\<dots> \<le> sum_list (map node_weight ks) + (2 + stack_measure (dom cache) {e} sub)"
    using stack_measure_le [of "dom cache" "{}" ks] g1 m by simp
  also have "\<dots> < node_weight e + stack_measure (dom cache) {e} sub"
    using w node_weight_kids [of e] by simp
  finally show ?case by (simp add: c s g0)
qed

text \<open>
  The main loop of \<^verbatim>\<open>min_length(sz, ss)\<close>. Reading \<^verbatim>\<open>cache[th]\<close> asserts that the
  entry is there; the model answers \<open>None\<close> where it is not.
\<close>

function min_length_loop ::
  "expr list \<Rightarrow> 32 word \<Rightarrow> bool \<Rightarrow> len_cache \<Rightarrow> (bool \<times> 32 word) option" where
  "min_length_loop [] len bounded cache = Some (bounded, len)"
| "min_length_loop (e # es) len bounded cache =
     (if is_unit_seq e \<noteq> None then min_length_loop es (len + 1) bounded cache
      else if is_empty e then min_length_loop es len bounded cache
      else (case is_string e of
        Some s \<Rightarrow> min_length_loop es (len + of_nat (length s)) bounded cache
      | None \<Rightarrow>
         (case is_concat e of
            Some (x, y) \<Rightarrow> min_length_loop (y # x # es) len bounded cache
          | None \<Rightarrow>
             (case is_ite e of
                Some (c, th, el) \<Rightarrow>
                  (let cache' = visit_loop cache [el, th] in
                   case (cache' th, cache' el) of
                     (Some (bounded1, len1), Some (bounded2, len2)) \<Rightarrow>
                       min_length_loop es (len + min len1 len2)
                         (if \<not> bounded1 \<or> \<not> bounded2 \<or> len1 \<noteq> len2 then False else bounded)
                         cache'
                   | _ \<Rightarrow> None)
              | None \<Rightarrow> min_length_loop es len False cache))))"
  by pat_completeness auto
termination
  by (relation "measure (\<lambda>(es, len, bounded, cache). sum_list (map size es))")
     (auto dest: is_concat_size)

definition min_length_vec :: "expr list \<Rightarrow> (bool \<times> 32 word) option" where
  "min_length_vec ss = min_length_loop (rev ss) 0 True Map.empty"

definition min_length :: "expr \<Rightarrow> (bool \<times> 32 word) option" where
  "min_length e = min_length_vec [e]"

section \<open>Denotation of sequence terms\<close>

text \<open>
  The theory semantics the claims about lengths and equations refer to. An interpretation
  gives a value to every term the sequence theory does not interpret (variables,
  applications of other theories, conditions of if-then-else). A sequence denotes a list
  of elements; \<^verbatim>\<open>seq.at\<close> and \<^verbatim>\<open>seq.extract\<close> follow the SMT-LIB definitions
  (the empty sequence outside the bounds), \<^verbatim>\<open>str.from_int\<close> is the decimal numeral
  of a non-negative integer and the empty string otherwise.
\<close>

datatype elem = Ch nat | Iv int | Other nat

record interp =
  seq_of :: "expr \<Rightarrow> elem list"
  int_of :: "expr \<Rightarrow> int"
  bool_of :: "expr \<Rightarrow> bool"
  elem_of :: "expr \<Rightarrow> elem"

function to_decimal :: "nat \<Rightarrow> zstring" where
  "to_decimal n = (if n < 10 then [48 + n] else to_decimal (n div 10) @ [48 + n mod 10])"
  by pat_completeness auto
termination
  by (relation "measure id") auto

declare to_decimal.simps [simp del]

definition eval_elem :: "interp \<Rightarrow> expr \<Rightarrow> elem" where
  "eval_elem I x =
     (case is_const_char x of
        Some c \<Rightarrow> Ch c
      | None \<Rightarrow> (case is_numeral x of Some n \<Rightarrow> Iv n | None \<Rightarrow> elem_of I x))"

definition eval_int :: "interp \<Rightarrow> expr \<Rightarrow> int" where
  "eval_int I x = (case is_numeral x of Some n \<Rightarrow> n | None \<Rightarrow> int_of I x)"

lemma is_ite_size: "is_ite e = Some (c, x, y) \<Longrightarrow> size x < size e \<and> size y < size e"
  by (auto simp: is_ite_def dest!: is_ternary_SomeD)

lemma is_at_size: "is_binary OP_SEQ_AT e = Some (x, y) \<Longrightarrow> size x < size e"
  by (auto dest!: is_binary_SomeD)

lemma is_extract_size: "is_extract e = Some (x, y, z) \<Longrightarrow> size x < size e"
  by (auto simp: is_extract_def dest!: is_ternary_SomeD)

function eval_seq :: "interp \<Rightarrow> expr \<Rightarrow> elem list" where
  "eval_seq I e =
     (case is_unit_seq e of
        Some x \<Rightarrow> [eval_elem I x]
      | None \<Rightarrow>
     if is_empty e then []
     else (case is_string e of
        Some s \<Rightarrow> map Ch s
      | None \<Rightarrow>
     (case is_concat e of
        Some (x, y) \<Rightarrow> eval_seq I x @ eval_seq I y
      | None \<Rightarrow>
     (case is_ite e of
        Some (c, th, el) \<Rightarrow> if bool_of I c then eval_seq I th else eval_seq I el
      | None \<Rightarrow>
     (case is_binary OP_SEQ_AT e of
        Some (s, i) \<Rightarrow>
          (let v = eval_seq I s; n = eval_int I i
           in if 0 \<le> n \<and> n < int (length v) then [v ! nat n] else [])
      | None \<Rightarrow>
     (case is_extract e of
        Some (s, i, l) \<Rightarrow>
          (let v = eval_seq I s; n = eval_int I i; m = eval_int I l
           in if 0 \<le> n \<and> n < int (length v) \<and> 0 < m then take (nat m) (drop (nat n) v)
              else [])
      | None \<Rightarrow>
     (case is_itos e of
        Some n \<Rightarrow>
          (let v = eval_int I n in if 0 \<le> v then map Ch (to_decimal (nat v)) else [])
      | None \<Rightarrow> seq_of I e)))))))"
  by pat_completeness auto
termination
  by (relation "measure (\<lambda>(I, e). size e)")
     (auto dest: is_concat_size is_ite_size is_at_size is_extract_size)

declare eval_seq.simps [simp del]

section \<open>The operation cache\<close>

text \<open>
  \<^verbatim>\<open>op_cache\<close> is a hash table of entries \<open>(op, a, b, c, r)\<close>, hashed and compared
  on \<open>(op, a, b, c)\<close> only, and a trail of references that pins the terms of the entries.
  Any of \<open>a\<close>, \<open>b\<close>, \<open>c\<close>, \<open>r\<close> may be the null pointer (\<open>None\<close>). The table is a
  list of entries here, in no particular order; inserting an entry replaces the entry with
  the same key, as the host's hash table does. The cap \<^verbatim>\<open>m_max_cache_size\<close> is
  declared in the header and is a parameter.
\<close>

record op_entry =
  e_k :: decl
  e_a :: "expr option"
  e_b :: "expr option"
  e_c :: "expr option"
  e_r :: "expr option"

record op_cache =
  m_table :: "op_entry list"
  m_trail :: "expr list"

definition same_key :: "op_entry \<Rightarrow> op_entry \<Rightarrow> bool" where
  "same_key e1 e2 = (e_k e1 = e_k e2 \<and> e_a e1 = e_a e2 \<and> e_b e1 = e_b e2 \<and> e_c e1 = e_c e2)"

definition table_insert :: "op_entry \<Rightarrow> op_entry list \<Rightarrow> op_entry list" where
  "table_insert e t = e # filter (\<lambda>e'. \<not> same_key e e') t"

definition table_find :: "op_entry \<Rightarrow> op_entry list \<Rightarrow> op_entry option" where
  "table_find e t = List.find (same_key e) t"

definition push_back_opt :: "expr option \<Rightarrow> expr list \<Rightarrow> expr list" where
  "push_back_opt x trail = (case x of Some e \<Rightarrow> trail @ [e] | None \<Rightarrow> trail)"

definition cleanup :: "nat \<Rightarrow> op_cache \<Rightarrow> op_cache" where
  "cleanup m_max_cache_size ch =
     (if length (m_table ch) \<ge> m_max_cache_size
      then ch\<lparr>m_trail := [], m_table := []\<rparr>
      else ch)"

definition cache_insert ::
  "nat \<Rightarrow> decl \<Rightarrow> expr option \<Rightarrow> expr option \<Rightarrow> expr option \<Rightarrow> expr option
     \<Rightarrow> op_cache \<Rightarrow> op_cache" where
  "cache_insert m_max_cache_size op x y z res ch =
     (let ch1 = cleanup m_max_cache_size ch;
          tr = push_back_opt res (push_back_opt z (push_back_opt y
                 (push_back_opt x (m_trail ch1))))
      in ch1\<lparr>m_trail := tr,
             m_table := table_insert \<lparr>e_k = op, e_a = x, e_b = y, e_c = z, e_r = res\<rparr> (m_table ch1)\<rparr>)"

definition cache_find ::
  "decl \<Rightarrow> expr option \<Rightarrow> expr option \<Rightarrow> expr option \<Rightarrow> op_cache \<Rightarrow> expr option" where
  "cache_find op x y z ch =
     (case table_find \<lparr>e_k = op, e_a = x, e_b = y, e_c = z, e_r = None\<rparr> (m_table ch) of
        Some e \<Rightarrow> e_r e
      | None \<Rightarrow> None)"

section \<open>Conversions between integers and strings\<close>

text \<open>
  Helpers of the host that are not part of the file. \<^verbatim>\<open>zstring(rational)\<close> is the
  decimal numeral (\<open>to_decimal\<close> above) and \<^verbatim>\<open>rational(char const*)\<close> reads one.
  \<^verbatim>\<open>zstring::encode\<close> prints a string for the SMT-LIB output: codes 32 to 127 are
  printed as they are, every other code, and a backslash that is followed by \<open>u\<close>, as
  the escape \<^verbatim>\<open>\u{h}\<close> with \<open>h\<close> the code in hexadecimal.
  \<^verbatim>\<open>str().mk_concat(n, es, sort)\<close> is the empty sequence for no argument, the argument
  itself for one, and the right-nested concatenation otherwise.
  \<^verbatim>\<open>get_concat_units\<close> flattens a concatenation, splits string literals into units
  and drops empty sequences. \<^verbatim>\<open>max_length(e, len)\<close> is the variant of
  \<^verbatim>\<open>max_length\<close> that returns the flag and writes the number to \<open>len\<close>.
\<close>

definition is_digit :: "nat \<Rightarrow> bool" where
  "is_digit ch = (48 \<le> ch \<and> ch \<le> 57)"

definition parse_decimal :: "nat list \<Rightarrow> int" where
  "parse_decimal s = foldl (\<lambda>acc ch. 10 * acc + (int ch - 48)) 0 s"

definition hex_digit :: "nat \<Rightarrow> nat" where
  "hex_digit d = (if d < 10 then 48 + d else 87 + d)"

function to_hex :: "nat \<Rightarrow> nat list" where
  "to_hex n = (if n < 16 then [hex_digit n] else to_hex (n div 16) @ [hex_digit (n mod 16)])"
  by pat_completeness auto
termination
  by (relation "measure id") auto

declare to_hex.simps [simp del]

fun encode :: "zstring \<Rightarrow> nat list" where
  "encode [] = []"
| "encode (ch # rest) =
     (if ch < 32 \<or> ch \<ge> 128 \<or> (ch = 92 \<and> rest \<noteq> [] \<and> hd rest = 117)
      then [92, 117, 123] @ to_hex ch @ [125] @ encode rest
      else ch # encode rest)"

fun mk_concat_n :: "expr list \<Rightarrow> expr" where
  "mk_concat_n [] = mk_empty"
| "mk_concat_n [e] = e"
| "mk_concat_n (e # es) = mk_concat e (mk_concat_n es)"

function get_concat_units :: "expr \<Rightarrow> expr list" where
  "get_concat_units e =
     (case is_concat e of
        Some (e1, e2) \<Rightarrow> get_concat_units e1 @ get_concat_units e2
      | None \<Rightarrow>
         (case is_string e of
            Some s \<Rightarrow> map (\<lambda>ch. mk_unit (mk_char ch)) s
          | None \<Rightarrow> if is_empty e then [] else [e]))"
  by pat_completeness auto
termination
  by (relation "measure size") (auto dest: is_concat_size)

declare get_concat_units.simps [simp del]

definition max_length2 :: "expr \<Rightarrow> bool \<times> int" where
  "max_length2 e = max_length e"

definition mk_str_itos :: "expr \<Rightarrow> br_status" where
  "mk_str_itos a =
     (case is_numeral a of
        Some r \<Rightarrow>
          if \<not> r < 0 then BR_DONE (mk_string (to_decimal (nat r)))
          else BR_DONE (mk_string [])
      | None \<Rightarrow>
         (case is_stoi a of
            Some b \<Rightarrow>
              (let (bounded, r) = max_length2 b in
               if bounded \<and> r \<le> 1
               then BR_REWRITE2
                      (mk_ite (mk_or (map (\<lambda>i. mk_eq b (mk_string [48 + i])) [0..<10]))
                         b (mk_string []))
               else BR_FAILED)
          | None \<Rightarrow> BR_FAILED))"

definition is_const_unit :: "expr \<Rightarrow> nat option" where
  "is_const_unit a = (case is_unit_seq a of Some u \<Rightarrow> is_const_char u | None \<Rightarrow> None)"

definition mk_str_stoi :: "expr \<Rightarrow> br_status" where
  "mk_str_stoi a =
     (case is_string a of
        Some s \<Rightarrow>
          (let s1 = encode s in
           if length s1 = 0 then BR_DONE minus_one
           else if \<exists>ch \<in> set s1. \<not> is_digit ch then BR_DONE minus_one
           else BR_DONE (mk_int (parse_decimal s1)))
      | None \<Rightarrow>
     (case is_itos a of
        Some b \<Rightarrow> BR_DONE (mk_ite (mk_ge b zero) b minus_one)
      | None \<Rightarrow>
     (case is_ubv2s a of
        Some b \<Rightarrow> BR_DONE (mk_ubv2int b)
      | None \<Rightarrow>
     (case is_ite a of
        Some (c, t, e) \<Rightarrow> BR_REWRITE_FULL (mk_ite c (mk_stoi t) (mk_stoi e))
      | None \<Rightarrow>
     (case is_const_unit a of
        Some ch \<Rightarrow>
          if is_digit ch then BR_DONE (mk_int (int ch - 48)) else BR_DONE minus_one
      | None \<Rightarrow>
     (let as = get_concat_units a in
      if as = [] then BR_DONE minus_one
      else if is_unit_seq (last as) \<noteq> None then
        (let tail = mk_stoi (last as);
             head = mk_concat_n (butlast as);
             stoi_head = mk_stoi head;
             result1 = mk_ite (mk_ge stoi_head zero)
                         (mk_add (mk_mul (mk_int 10) stoi_head) tail) minus_one;
             result2 = mk_ite (mk_ge tail zero) result1 tail
         in BR_REWRITE_FULL (mk_ite (mk_is_empty head) tail result2))
      else if is_const_unit (hd as) = Some 48 then
        (let result = mk_concat_n (tl as)
         in BR_REWRITE_FULL (mk_ite (mk_is_empty result) zero (mk_stoi result)))
      else BR_FAILED))))))"

section \<open>Regular expressions: recognisers, constructors and host information\<close>

definition is_to_re :: "expr \<Rightarrow> expr option" where
  "is_to_re = is_unary OP_SEQ_TO_RE"

definition is_re_concat :: "expr \<Rightarrow> (expr \<times> expr) option" where
  "is_re_concat = is_binary OP_RE_CONCAT"

definition is_union :: "expr \<Rightarrow> (expr \<times> expr) option" where
  "is_union = is_binary OP_RE_UNION"

definition is_intersection :: "expr \<Rightarrow> (expr \<times> expr) option" where
  "is_intersection = is_binary OP_RE_INTERSECT"

definition is_complement :: "expr \<Rightarrow> expr option" where
  "is_complement = is_unary OP_RE_COMPLEMENT"

definition is_plus :: "expr \<Rightarrow> expr option" where
  "is_plus = is_unary OP_RE_PLUS"

definition is_opt :: "expr \<Rightarrow> expr option" where
  "is_opt = is_unary OP_RE_OPTION"

definition is_re_empty :: "expr \<Rightarrow> bool" where
  "is_re_empty r = is_app_of r OP_RE_EMPTY_SET 0"

definition is_full_seq :: "expr \<Rightarrow> bool" where
  "is_full_seq r = is_app_of r OP_RE_FULL_SEQ_SET 0"

definition is_full_char :: "expr \<Rightarrow> bool" where
  "is_full_char r = is_app_of r OP_RE_FULL_CHAR_SET 0"

definition is_epsilon :: "expr \<Rightarrow> bool" where
  "is_epsilon r = (case is_to_re r of Some s \<Rightarrow> is_empty s | None \<Rightarrow> False)"

text \<open>
  \<^verbatim>\<open>re().is_dot_plus\<close>: the regex of all non-empty words, written as the plus of the
  full character set or as the concatenation of the full character set and the full
  sequence set, in either order.
\<close>

definition is_dot_plus :: "expr \<Rightarrow> bool" where
  "is_dot_plus r =
     ((case is_plus r of Some s \<Rightarrow> is_full_char s | None \<Rightarrow> False)
      \<or> (case is_re_concat r of
            Some (s, t) \<Rightarrow> (is_full_char s \<and> is_full_seq t) \<or> (is_full_char t \<and> is_full_seq s)
          | None \<Rightarrow> False))"

text \<open>A loop with both bounds: the bounds are the two parameters of the declaration.\<close>

definition is_loop2 :: "expr \<Rightarrow> (expr \<times> nat \<times> nat) option" where
  "is_loop2 r = (case r of App d args \<Rightarrow>
     (case d of
        OP_RE_LOOP ps \<Rightarrow>
          (case (ps, args) of ([lo, hi], [body]) \<Rightarrow> Some (body, lo, hi) | _ \<Rightarrow> None)
      | _ \<Rightarrow> None))"

definition mk_to_re :: "expr \<Rightarrow> expr" where
  "mk_to_re s = App OP_SEQ_TO_RE [s]"

definition mk_re_empty :: expr where
  "mk_re_empty = App OP_RE_EMPTY_SET []"

definition mk_full_seq :: expr where
  "mk_full_seq = App OP_RE_FULL_SEQ_SET []"

definition mk_full_char :: expr where
  "mk_full_char = App OP_RE_FULL_CHAR_SET []"

definition mk_epsilon :: expr where
  "mk_epsilon = mk_to_re mk_empty"

definition mk_re_plus :: "expr \<Rightarrow> expr" where
  "mk_re_plus r = App OP_RE_PLUS [r]"

definition mk_re_concat :: "expr \<Rightarrow> expr \<Rightarrow> expr" where
  "mk_re_concat r s = App OP_RE_CONCAT [r, s]"

definition mk_union :: "expr \<Rightarrow> expr \<Rightarrow> expr" where
  "mk_union r s = App OP_RE_UNION [r, s]"

definition mk_inter :: "expr \<Rightarrow> expr \<Rightarrow> expr" where
  "mk_inter r s = App OP_RE_INTERSECT [r, s]"

definition mk_complement :: "expr \<Rightarrow> expr" where
  "mk_complement r = App OP_RE_COMPLEMENT [r]"

text \<open>
  What the host knows about a regex (\<^verbatim>\<open>re().get_info(r)\<close>): whether it is nullable,
  as a three-valued answer, and a lower bound on the length of its words. The function
  that computes it and the identifier of a term (\<^verbatim>\<open>get_id\<close>) belong to the host;
  they are parameters of the functions below.
\<close>

datatype lbool = l_false | l_undef | l_true

record info =
  info_nullable :: lbool
  info_min_length :: nat

section \<open>Normalised union and intersection\<close>

definition are_complements :: "expr \<Rightarrow> expr \<Rightarrow> bool" where
  "are_complements r1 r2 = (is_complement r1 = Some r2 \<or> is_complement r2 = Some r1)"

text \<open>
  \<^verbatim>\<open>is_subset\<close>. One round of its loop either answers or continues with a new pair.
  The local \<^verbatim>\<open>is_concat(r, a, b, c)\<close> matches \<open>r = a \<cdot> (b \<cdot> c)\<close>.
\<close>

definition is_concat3 :: "expr \<Rightarrow> (expr \<times> expr \<times> expr) option" where
  "is_concat3 r =
     (case is_re_concat r of
        Some (x, y) \<Rightarrow> (case is_re_concat y of Some (y1, z) \<Rightarrow> Some (x, y1, z) | None \<Rightarrow> None)
      | None \<Rightarrow> None)"

definition is_subset_step :: "(expr \<Rightarrow> info) \<Rightarrow> expr \<Rightarrow> expr \<Rightarrow> bool + (expr \<times> expr)" where
  "is_subset_step get_info r1 r2 =
     (if r1 = r2 then Inl True
      else if is_full_seq r2 then Inl True
      else if is_dot_plus r2 \<and> info_nullable (get_info r1) = l_false then Inl True
      else
       (case (case (is_concat3 r1, is_concat3 r2) of
                (Some (ra1, ra2, ra3), Some (rb1, rb2, rb3)) \<Rightarrow>
                   if ra1 = rb1 \<and> ra2 = rb2 then Some (ra3, rb3) else None
              | _ \<Rightarrow> None) of
          Some next \<Rightarrow> Inr next
        | None \<Rightarrow>
       (case (case (is_re_concat r1, is_re_concat r2) of
                (Some (ra1, ra2), Some (rb1, rb2)) \<Rightarrow>
                   if is_full_seq rb1 then Some (ra2, r2) else None
              | _ \<Rightarrow> None) of
          Some next \<Rightarrow> Inr next
        | None \<Rightarrow>
       (case (case (is_re_concat r1, is_re_concat r2) of
                (Some (ra1, ra2), Some (rb1, rb2)) \<Rightarrow>
                  (case (is_loop2 ra1, is_loop2 rb1) of
                     (Some (ra3, la, ua), Some (rb3, lb, ub)) \<Rightarrow>
                        if ra3 = rb3 \<and> lb \<le> la \<and> ua \<le> ub then Some (ra2, rb2) else None
                   | _ \<Rightarrow> None)
              | _ \<Rightarrow> None) of
          Some next \<Rightarrow> Inr next
        | None \<Rightarrow>
       (case (is_loop2 r1, is_loop2 r2) of
          (Some (ra3, la, ua), Some (rb3, lb, ub)) \<Rightarrow>
             Inl (ra3 = rb3 \<and> lb \<le> la \<and> ua \<le> ub)
        | _ \<Rightarrow> Inl False)))))"

lemma is_re_concat_size:
  "is_re_concat e = Some (x, y) \<Longrightarrow> size x < size e \<and> size y < size e"
  by (auto simp: is_re_concat_def dest!: is_binary_SomeD)

lemma is_complement_size: "is_complement e = Some x \<Longrightarrow> size x < size e"
  by (auto simp: is_complement_def dest!: is_unary_SomeD)

lemma is_subset_step_size:
  assumes "is_subset_step get_info r1 r2 = Inr (x, y)"
  shows "size x + size y < size r1 + size r2"
proof -
  have c3: "\<And>r a b c. is_concat3 r = Some (a, b, c) \<Longrightarrow> size c < size r"
    by (auto simp: is_concat3_def split: option.splits dest!: is_re_concat_size)
  from assms show ?thesis
    by (auto simp: is_subset_step_def split: if_splits option.splits prod.splits
        dest!: c3 is_re_concat_size)
qed

function is_subset_loop :: "(expr \<Rightarrow> info) \<Rightarrow> expr \<Rightarrow> expr \<Rightarrow> bool" where
  "is_subset_loop get_info r1 r2 =
     (case is_subset_step get_info r1 r2 of
        Inl answer \<Rightarrow> answer
      | Inr (r1', r2') \<Rightarrow> is_subset_loop get_info r1' r2')"
  by pat_completeness auto
termination
  by (relation "measure (\<lambda>(get_info, r1, r2). size r1 + size r2)")
     (auto dest: is_subset_step_size)

declare is_subset_loop.simps [simp del]

function is_subset :: "(expr \<Rightarrow> info) \<Rightarrow> expr \<Rightarrow> expr \<Rightarrow> bool" where
  "is_subset get_info r1 r2 =
     (case (is_complement r1, is_complement r2) of
        (Some ra1, Some rb1) \<Rightarrow> is_subset get_info rb1 ra1
      | _ \<Rightarrow> is_subset_loop get_info r1 r2)"
  by pat_completeness auto
termination
  by (relation "measure (\<lambda>(get_info, r1, r2). size r1 + size r2)")
     (auto dest!: is_complement_size [OF sym])

declare is_subset.simps [simp del]

text \<open>
  \<^verbatim>\<open>merge_regex_sets\<close> merges two chains of unions (or of intersections) ordered by
  the identifiers of their members. The callers pass \<^verbatim>\<open>test\<close> as the recogniser of
  the union or of the intersection; the model passes the declaration kind \<open>k\<close> and tests
  with it. \<^verbatim>\<open>prefix\<close> lists the members already merged, in the order they were pushed.
  After the swap at the head of the loop, \<open>br\<close> decomposes only if \<open>ar\<close> does (the
  \<^verbatim>\<open>VERIFY\<close> of the source).
\<close>

definition compare_id :: "(expr \<Rightarrow> nat) \<Rightarrow> expr \<Rightarrow> expr \<Rightarrow> int" where
  "compare_id get_id x y =
     (if x = y then 0
      else (let xid = (case is_complement x of Some z \<Rightarrow> get_id z | None \<Rightarrow> get_id x);
                yid = (case is_complement y of Some z \<Rightarrow> get_id z | None \<Rightarrow> get_id y)
            in if xid < yid then - 1 else 1))"

definition composeresult :: "(expr \<Rightarrow> expr \<Rightarrow> expr) \<Rightarrow> expr list \<Rightarrow> expr \<Rightarrow> expr" where
  "composeresult compose prefix suffix = foldr compose prefix suffix"

definition merge_step ::
  "(expr \<Rightarrow> nat) \<Rightarrow> expr \<Rightarrow> decl \<Rightarrow> (expr \<Rightarrow> expr \<Rightarrow> expr) \<Rightarrow> expr \<Rightarrow> expr \<Rightarrow> expr list
     \<Rightarrow> expr + (expr \<times> expr \<times> expr list)" where
  "merge_step get_id unit k compose ar0 br0 prefix =
     (if ar0 = br0 then Inl (composeresult compose prefix ar0)
      else if are_complements ar0 br0 then Inl unit
      else
       (let (ar, br) = (if is_binary k br0 \<noteq> None \<and> is_binary k ar0 = None
                        then (br0, ar0) else (ar0, br0))
        in case (is_binary k ar, is_binary k br) of
             (Some (a, ar1), Some (b, br1)) \<Rightarrow>
               if are_complements a b then Inl unit
               else (let cmp = compare_id get_id a b in
                     if cmp = 0 then Inr (ar1, br1, prefix @ [a])
                     else if cmp = - 1 then Inr (ar1, br, prefix @ [a])
                     else Inr (ar, br1, prefix @ [b]))
           | (Some (a, ar1), None) \<Rightarrow>
               if are_complements a br then Inl unit
               else (let cmp = compare_id get_id a br in
                     if cmp = 0 then Inl (composeresult compose prefix ar)
                     else if cmp = - 1 then Inr (ar1, br, prefix @ [a])
                     else Inl (composeresult compose (prefix @ [br]) ar))
           | (None, _) \<Rightarrow>
               (let (ar', br') = (if compare_id get_id ar br = - 1 then (br, ar) else (ar, br))
                in Inl (composeresult compose (prefix @ [br']) ar'))))"

lemma merge_step_size:
  assumes "merge_step get_id unit k compose ar br prefix = Inr (ar', br', prefix')"
  shows "size ar' + size br' < size ar + size br"
  using assms
  by (auto simp: merge_step_def Let_def split: if_splits option.splits prod.splits
      dest!: is_binary_SomeD)

function merge_loop ::
  "(expr \<Rightarrow> nat) \<Rightarrow> expr \<Rightarrow> decl \<Rightarrow> (expr \<Rightarrow> expr \<Rightarrow> expr) \<Rightarrow> expr \<Rightarrow> expr \<Rightarrow> expr list
     \<Rightarrow> expr" where
  "merge_loop get_id unit k compose ar br prefix =
     (case merge_step get_id unit k compose ar br prefix of
        Inl result \<Rightarrow> result
      | Inr (ar', br', prefix') \<Rightarrow> merge_loop get_id unit k compose ar' br' prefix')"
  by pat_completeness auto
termination
  by (relation "measure (\<lambda>(get_id, unit, k, compose, ar, br, prefix). size ar + size br)")
     (auto dest: merge_step_size)

declare merge_loop.simps [simp del]

definition merge_regex_sets ::
  "(expr \<Rightarrow> nat) \<Rightarrow> expr \<Rightarrow> expr \<Rightarrow> expr \<Rightarrow> decl \<Rightarrow> (expr \<Rightarrow> expr \<Rightarrow> expr) \<Rightarrow> expr" where
  "merge_regex_sets get_id r1 r2 unit k compose = merge_loop get_id unit k compose r1 r2 []"

definition mk_regex_union_normalize ::
  "(expr \<Rightarrow> info) \<Rightarrow> (expr \<Rightarrow> nat) \<Rightarrow> expr \<Rightarrow> expr \<Rightarrow> expr" where
  "mk_regex_union_normalize get_info get_id r1 r2 =
     (let compose = (\<lambda>r1 r2. if is_subset get_info r1 r2 then r2
                             else if is_subset get_info r2 r1 then r1 else mk_union r1 r2)
      in if r1 = r2 \<or> is_re_empty r2 \<or> is_full_seq r1 then r1
         else if is_re_empty r1 \<or> is_full_seq r2 then r2
         else if is_dot_plus r1 \<and> info_min_length (get_info r2) > 0 then r1
         else if is_dot_plus r2 \<and> info_min_length (get_info r1) > 0 then r2
         else merge_regex_sets get_id r1 r2 mk_full_seq OP_RE_UNION compose)"

definition mk_regex_inter_normalize ::
  "(expr \<Rightarrow> info) \<Rightarrow> (expr \<Rightarrow> nat) \<Rightarrow> expr \<Rightarrow> expr \<Rightarrow> expr" where
  "mk_regex_inter_normalize get_info get_id r10 r20 =
     (let (r1, r2) = (if is_epsilon r20 then (r20, r10) else (r10, r20));
          compose = (\<lambda>r1 r2. if is_subset get_info r1 r2 then r1
                             else if is_subset get_info r2 r1 then r2 else mk_inter r1 r2)
      in if r1 = r2 \<or> is_re_empty r1 \<or> is_full_seq r2 then r1
         else if is_re_empty r2 \<or> is_full_seq r1 then r2
         else if is_epsilon r1 then
           (if info_nullable (get_info r2) = l_true then r1
            else if info_nullable (get_info r2) = l_false then mk_re_empty
            else merge_regex_sets get_id r1 r2 mk_re_empty OP_RE_INTERSECT compose)
         else if is_dot_plus r1 \<and> info_min_length (get_info r2) > 0 then r2
         else if is_dot_plus r2 \<and> info_min_length (get_info r1) > 0 then r1
         else merge_regex_sets get_id r1 r2 mk_re_empty OP_RE_INTERSECT compose)"

text \<open>
  An instance of the host's information for examples: of a string literal as a regex it
  knows the length and whether it is empty, of any other regex nothing.
\<close>

definition literal_info :: "expr \<Rightarrow> info" where
  "literal_info r =
     (case is_to_re r of
        Some s \<Rightarrow>
          (case is_string s of
             Some w \<Rightarrow> \<lparr>info_nullable = (if w = [] then l_true else l_false),
                        info_min_length = length w\<rparr>
           | None \<Rightarrow> \<lparr>info_nullable = l_undef, info_min_length = 0\<rparr>)
      | None \<Rightarrow> \<lparr>info_nullable = l_undef, info_min_length = 0\<rparr>)"

section \<open>Path conditions of derivatives\<close>

text \<open>
  Helpers of the host used by the derivative engine. \<^verbatim>\<open>re().mk_ite_simplify\<close> builds
  an if-then-else unless the condition is a constant or the branches coincide;
  \<^verbatim>\<open>u().mk_le\<close> folds the comparison of two character constants;
  \<^verbatim>\<open>flatten_and\<close> lists the conjuncts of nested conjunctions, without the constant
  \<open>true\<close>; \<^verbatim>\<open>u().is_char_const_range(x, e, l, u, negated)\<close> recognises a bound on \<open>x\<close> by
  constants, possibly negated; \<^verbatim>\<open>expr_safe_replace\<close> substitutes a term for a term.
  The sort test \<^verbatim>\<open>u().is_char(elem)\<close> is a parameter (\<open>is_char\<close>), as are the largest
  character and the other functions of the host (record \<open>host\<close>).
\<close>

definition is_true :: "expr \<Rightarrow> bool" where
  "is_true e = is_app_of e OP_TRUE 0"

definition is_false :: "expr \<Rightarrow> bool" where
  "is_false e = is_app_of e OP_FALSE 0"

definition is_not :: "expr \<Rightarrow> expr option" where
  "is_not = is_unary OP_NOT"

definition is_eq :: "expr \<Rightarrow> (expr \<times> expr) option" where
  "is_eq = is_binary OP_EQ"

definition is_and2 :: "expr \<Rightarrow> (expr \<times> expr) option" where
  "is_and2 = is_binary OP_AND"

definition is_or2 :: "expr \<Rightarrow> (expr \<times> expr) option" where
  "is_or2 = is_binary OP_OR"

definition is_char_le :: "expr \<Rightarrow> (expr \<times> expr) option" where
  "is_char_le = is_binary OP_CHAR_LE"

definition is_uninterp_const :: "expr \<Rightarrow> bool" where
  "is_uninterp_const e = (case e of App d args \<Rightarrow>
     (case d of UNINTERPRETED x \<Rightarrow> args = [] | _ \<Rightarrow> False))"

definition mk_ite_simplify :: "expr \<Rightarrow> expr \<Rightarrow> expr \<Rightarrow> expr" where
  "mk_ite_simplify c t e =
     (if is_true c \<or> t = e then t else if is_false c then e else mk_ite c t e)"

definition mk_le :: "expr \<Rightarrow> expr \<Rightarrow> expr" where
  "mk_le ch1 ch2 =
     (case (is_const_char ch1, is_const_char ch2) of
        (Some v1, Some v2) \<Rightarrow> mk_bool_val (v1 \<le> v2)
      | _ \<Rightarrow> App OP_CHAR_LE [ch1, ch2])"

fun flatten_and :: "expr \<Rightarrow> expr list" where
  "flatten_and (App d args) =
     (if d = OP_AND then concat (map flatten_and args)
      else if d = OP_TRUE \<and> args = [] then []
      else [App d args])"

fun subst_expr :: "expr \<Rightarrow> expr \<Rightarrow> expr \<Rightarrow> expr" where
  "subst_expr x v (App d args) =
     (if App d args = x then v else App d (map (subst_expr x v) args))"

definition const_pair :: "expr \<Rightarrow> expr \<Rightarrow> (nat \<times> nat) option" where
  "const_pair lhs rhs =
     (case (is_const_char lhs, is_const_char rhs) of
        (Some ch, Some ch2) \<Rightarrow> Some (ch, ch2)
      | _ \<Rightarrow> None)"

definition is_char_const_range :: "nat \<Rightarrow> expr \<Rightarrow> expr \<Rightarrow> (nat \<times> nat \<times> bool) option" where
  "is_char_const_range max_char x e =
     (let (negated, e1) = (case is_not e of Some e' \<Rightarrow> (True, e') | None \<Rightarrow> (False, e)) in
      case (case is_eq e1 of
              Some (p, q) \<Rightarrow> if p = x then is_const_char q else None
            | None \<Rightarrow> None) of
        Some l \<Rightarrow> Some (l, l, negated)
      | None \<Rightarrow>
      (case (case is_char_le e1 of
               Some (p, q) \<Rightarrow> if p = x then is_const_char q else None
             | None \<Rightarrow> None) of
         Some u \<Rightarrow> Some (0, u, negated)
       | None \<Rightarrow>
      (case (case is_char_le e1 of
               Some (p, q) \<Rightarrow> if q = x then is_const_char p else None
             | None \<Rightarrow> None) of
         Some l \<Rightarrow> Some (l, max_char, negated)
       | None \<Rightarrow>
      (case (case is_and2 e1 of
               Some (e0, e2) \<Rightarrow>
                 (case (is_char_le e0, is_char_le e2) of
                    (Some (lb, p), Some (q, ub)) \<Rightarrow>
                      if p = x \<and> q = x then const_pair lb ub else None
                  | _ \<Rightarrow> None)
             | None \<Rightarrow> None) of
         Some (l, u) \<Rightarrow> Some (l, u, negated)
       | None \<Rightarrow>
      (case (case is_eq e1 of
               Some (p, q) \<Rightarrow> if q = x then is_const_char p else None
             | None \<Rightarrow> None) of
         Some l \<Rightarrow> Some (l, l, negated)
       | None \<Rightarrow> None)))))"

text \<open>\<^verbatim>\<open>intersect(lo, hi, ranges)\<close> on a sorted list of disjoint ranges.\<close>

fun intersect :: "nat \<Rightarrow> nat \<Rightarrow> (nat \<times> nat) list \<Rightarrow> (nat \<times> nat) list" where
  "intersect lo hi [] = []"
| "intersect lo hi ((lo1, hi1) # rs) =
     (if hi < lo1 then []
      else if hi1 \<ge> lo then (max lo1 lo, min hi1 hi) # intersect lo hi rs
      else intersect lo hi rs)"

definition exclude_range :: "nat \<Rightarrow> nat \<Rightarrow> nat \<Rightarrow> (nat \<times> nat) list \<Rightarrow> (nat \<times> nat) list" where
  "exclude_range max_char lower upper ranges =
     (if lower = 0 then
        (if upper = max_char then [] else intersect (upper + 1) max_char ranges)
      else if upper = max_char then intersect 0 (lower - 1) ranges
      else intersect 0 (lower - 1) ranges @ intersect (upper + 1) max_char ranges)"

text \<open>
  The conjuncts \<^verbatim>\<open>elim_condition\<close> knows to be true or false by themselves
  (\<open>Some True\<close>, \<open>Some False\<close>); \<open>None\<close> for any other conjunct.
\<close>

definition trivial_cond :: "expr \<Rightarrow> bool option" where
  "trivial_cond e =
     (let eq_same = (case is_eq e of Some (lhs, rhs) \<Rightarrow> lhs = rhs | None \<Rightarrow> False);
          neq = (case is_not e of
                   Some e1 \<Rightarrow> (case is_eq e1 of Some (lhs, rhs) \<Rightarrow> Some (lhs, rhs) | None \<Rightarrow> None)
                 | None \<Rightarrow> None);
          le = (case is_char_le e of Some (lhs, rhs) \<Rightarrow> const_pair lhs rhs | None \<Rightarrow> None);
          nle = (case is_not e of
                   Some e1 \<Rightarrow>
                     (case is_char_le e1 of Some (lhs, rhs) \<Rightarrow> const_pair lhs rhs | None \<Rightarrow> None)
                 | None \<Rightarrow> None)
      in if is_true e \<or> eq_same then Some True
         else if (case neq of
                    Some (lhs, rhs) \<Rightarrow>
                      (case const_pair lhs rhs of Some (ch, ch2) \<Rightarrow> ch \<noteq> ch2 | None \<Rightarrow> False)
                  | None \<Rightarrow> False) then Some True
         else if (case le of Some (ch, ch2) \<Rightarrow> ch \<le> ch2 | None \<Rightarrow> False) then Some True
         else if (case nle of Some (ch, ch2) \<Rightarrow> ch > ch2 | None \<Rightarrow> False) then Some True
         else if is_false e
                 \<or> (case neq of Some (lhs, rhs) \<Rightarrow> lhs = rhs | None \<Rightarrow> False) then Some False
         else if (case le of Some (ch, ch2) \<Rightarrow> ch > ch2 | None \<Rightarrow> False) then Some False
         else if (case nle of Some (ch, ch2) \<Rightarrow> ch \<le> ch2 | None \<Rightarrow> False) then Some False
         else None)"

text \<open>
  The loop of \<^verbatim>\<open>elim_condition\<close> over the conjuncts, for an element of character
  sort: the state is the list of ranges still possible for the element and the range
  conjuncts seen; the answer adds the flag \<^verbatim>\<open>all_ranges\<close>. The loop stops when no
  range is left or at a conjunct of another form.
\<close>

fun collect_ranges ::
  "nat \<Rightarrow> expr \<Rightarrow> expr list \<Rightarrow> (nat \<times> nat) list \<Rightarrow> expr list
     \<Rightarrow> bool \<times> (nat \<times> nat) list \<times> expr list" where
  "collect_ranges max_char elem [] ranges conds_range = (True, ranges, conds_range)"
| "collect_ranges max_char elem (e # conds) ranges conds_range =
     (case is_char_const_range max_char elem e of
        Some (ch, ch2, negated) \<Rightarrow>
          if ch > ch2 \<and> negated then collect_ranges max_char elem conds ranges conds_range
          else
            (let ranges' = (if ch > ch2 then []
                            else if negated then exclude_range max_char ch ch2 ranges
                            else intersect ch ch2 ranges)
             in if ranges' = [] then (True, ranges', conds_range @ [e])
                else collect_ranges max_char elem conds ranges' (conds_range @ [e]))
      | None \<Rightarrow>
         (case trivial_cond e of
            Some True \<Rightarrow> collect_ranges max_char elem conds ranges conds_range
          | Some False \<Rightarrow> (True, [], conds_range)
          | None \<Rightarrow> (False, ranges, conds_range)))"

definition find_solution :: "expr \<Rightarrow> expr list \<Rightarrow> expr option" where
  "find_solution elem conds =
     (case List.find (\<lambda>e. case is_eq e of
                            Some (lhs, rhs) \<Rightarrow> rhs = elem \<or> lhs = elem
                          | None \<Rightarrow> False) conds of
        Some e \<Rightarrow>
          (case is_eq e of
             Some (lhs, rhs) \<Rightarrow> Some (if rhs = elem then lhs else rhs)
           | None \<Rightarrow> None)
      | None \<Rightarrow> None)"

definition elim_condition :: "nat \<Rightarrow> (expr \<Rightarrow> bool) \<Rightarrow> expr \<Rightarrow> expr \<Rightarrow> expr" where
  "elim_condition max_char is_char elem cond =
     (let conds0 = flatten_and cond;
          (all_ranges, ranges, conds_range) =
             (if is_char elem
              then collect_ranges max_char elem conds0 [(0, max_char)] []
              else (False, [], []))
      in if all_ranges \<and> ranges = [] then mk_false
         else if all_ranges \<and> is_uninterp_const elem then mk_true
         else
          (let conds = (if all_ranges then conds_range else conds0) in
           case find_solution elem conds of
             Some solution \<Rightarrow>
               (let cond' = subst_expr elem solution cond in
                if \<not> is_uninterp_const elem then mk_and [mk_eq elem solution, cond']
                else cond')
           | None \<Rightarrow>
               if all_ranges then
                 (if conds = [] then mk_true
                  else if length conds = 1 then conds ! 0
                  else mk_and conds)
               else cond))"

definition simplify_path :: "nat \<Rightarrow> (expr \<Rightarrow> bool) \<Rightarrow> expr \<Rightarrow> expr \<Rightarrow> expr" where
  "simplify_path max_char is_char elem path = elim_condition max_char is_char elem path"

section \<open>The derivative engine\<close>

text \<open>
  The functions of the host that the engine calls and that are not part of the file, as a
  record of parameters: the largest character; the sort tests \<^verbatim>\<open>u().is_char\<close> and
  \<^verbatim>\<open>m_util.is_re\<close>; the option \<^verbatim>\<open>coalesce_chars\<close>; \<^verbatim>\<open>re().get_info\<close> and the
  identifier of a term; the Boolean rewriter \<^verbatim>\<open>m_br\<close>; \<^verbatim>\<open>mk_re_append\<close> of the
  header; \<^verbatim>\<open>str().is_len_sub\<close>; the length bounds \<^verbatim>\<open>str().min_length\<close>,
  \<^verbatim>\<open>re().min_length\<close>, \<^verbatim>\<open>re().max_length\<close>; \<^verbatim>\<open>re().is_ground\<close>. The normaliser
  \<^verbatim>\<open>mk_der_cond\<close> of predicates, which the derivative of \<^verbatim>\<open>re.of_pred\<close> alone
  calls, is passed as a parameter too. The operation cache is not threaded through: the
  functions below are the functions that \<^verbatim>\<open>mk_antimirov_deriv\<close> and
  \<^verbatim>\<open>is_nullable\<close> memoise.
\<close>

record host =
  h_max_char :: nat
  h_is_char :: "expr \<Rightarrow> bool"
  h_is_re :: "expr \<Rightarrow> bool"
  h_coalesce_chars :: bool
  h_get_info :: "expr \<Rightarrow> info"
  h_get_id :: "expr \<Rightarrow> nat"
  h_br_mk_and :: "expr \<Rightarrow> expr \<Rightarrow> expr"
  h_br_mk_or :: "expr \<Rightarrow> expr \<Rightarrow> expr"
  h_br_mk_not :: "expr \<Rightarrow> expr"
  h_br_mk_ite :: "expr \<Rightarrow> expr \<Rightarrow> expr \<Rightarrow> expr"
  h_mk_eq_rw :: "expr \<Rightarrow> expr \<Rightarrow> expr"
  h_mk_re_append :: "expr \<Rightarrow> expr \<Rightarrow> expr"
  h_mk_der_cond :: "expr \<Rightarrow> expr \<Rightarrow> expr"
  h_is_len_sub :: "expr \<Rightarrow> (expr \<times> expr \<times> int) option"
  h_str_min_length :: "expr \<Rightarrow> nat"
  h_re_min_length :: "expr \<Rightarrow> nat"
  h_re_max_length :: "expr \<Rightarrow> nat"
  h_is_ground :: "expr \<Rightarrow> bool"

definition UINT_MAX :: nat where
  "UINT_MAX = 4294967295"

definition is_star :: "expr \<Rightarrow> expr option" where
  "is_star = is_unary OP_RE_STAR"

definition is_reverse :: "expr \<Rightarrow> expr option" where
  "is_reverse = is_unary OP_RE_REVERSE"

definition is_of_pred :: "expr \<Rightarrow> expr option" where
  "is_of_pred = is_unary OP_RE_OF_PRED"

definition is_diff :: "expr \<Rightarrow> (expr \<times> expr) option" where
  "is_diff = is_binary OP_RE_DIFF"

definition is_range :: "expr \<Rightarrow> (expr \<times> expr) option" where
  "is_range = is_binary OP_RE_RANGE"

definition is_derivative :: "expr \<Rightarrow> (expr \<times> expr) option" where
  "is_derivative = is_binary OP_RE_DERIVATIVE"

definition is_antimirov_union :: "expr \<Rightarrow> (expr \<times> expr) option" where
  "is_antimirov_union = is_binary OP_RE_ANTIMIROV_UNION"

definition is_loop1 :: "expr \<Rightarrow> (expr \<times> nat) option" where
  "is_loop1 r = (case r of App d args \<Rightarrow>
     (case d of
        OP_RE_LOOP ps \<Rightarrow> (case (ps, args) of ([lo], [body]) \<Rightarrow> Some (body, lo) | _ \<Rightarrow> None)
      | _ \<Rightarrow> None))"

definition is_sub :: "expr \<Rightarrow> (expr \<times> expr) option" where
  "is_sub = is_binary OP_SUB"

definition is_add :: "expr \<Rightarrow> (expr \<times> expr) option" where
  "is_add = is_binary OP_ADD"

definition is_unit_string :: "expr \<Rightarrow> expr option" where
  "is_unit_string s =
     (case is_string s of
        Some w \<Rightarrow> if length w = 1 then Some (mk_char (w ! 0)) else None
      | None \<Rightarrow> is_unit_seq s)"

definition one :: expr where
  "one = mk_int 1"

definition mk_sub2 :: "expr \<Rightarrow> expr \<Rightarrow> expr" where
  "mk_sub2 x y = App OP_SUB [x, y]"

definition mk_length :: "expr \<Rightarrow> expr" where
  "mk_length s = App OP_SEQ_LENGTH [s]"

definition mk_nth_i :: "expr \<Rightarrow> expr \<Rightarrow> expr" where
  "mk_nth_i s i = App OP_SEQ_NTH_I [s, i]"

definition mk_nth_c :: "expr \<Rightarrow> nat \<Rightarrow> expr" where
  "mk_nth_c s i = mk_nth_i s (mk_int (int i))"

definition mk_substr :: "expr \<Rightarrow> expr \<Rightarrow> expr \<Rightarrow> expr" where
  "mk_substr s i l = App OP_SEQ_EXTRACT [s, i, l]"

definition mk_in_re :: "expr \<Rightarrow> expr \<Rightarrow> expr" where
  "mk_in_re s r = App OP_SEQ_IN_RE [s, r]"

definition mk_star :: "expr \<Rightarrow> expr" where
  "mk_star r = App OP_RE_STAR [r]"

definition mk_reverse :: "expr \<Rightarrow> expr" where
  "mk_reverse r = App OP_RE_REVERSE [r]"

definition mk_opt :: "expr \<Rightarrow> expr" where
  "mk_opt r = App OP_RE_OPTION [r]"

definition mk_diff :: "expr \<Rightarrow> expr \<Rightarrow> expr" where
  "mk_diff r s = App OP_RE_DIFF [r, s]"

definition mk_range :: "expr \<Rightarrow> expr \<Rightarrow> expr" where
  "mk_range lo hi = App OP_RE_RANGE [lo, hi]"

definition mk_loop1 :: "expr \<Rightarrow> nat \<Rightarrow> expr" where
  "mk_loop1 r lo = App (OP_RE_LOOP [lo]) [r]"

definition mk_loop2 :: "expr \<Rightarrow> nat \<Rightarrow> nat \<Rightarrow> expr" where
  "mk_loop2 r lo hi = App (OP_RE_LOOP [lo, hi]) [r]"

definition mk_loop_proper :: "expr \<Rightarrow> nat \<Rightarrow> nat \<Rightarrow> expr" where
  "mk_loop_proper r lo hi =
     (if lo = 0 \<and> hi = 0 then mk_epsilon else if lo = 1 \<and> hi = 1 then r else mk_loop2 r lo hi)"

definition mk_re_derivative_term :: "expr \<Rightarrow> expr \<Rightarrow> expr" where
  "mk_re_derivative_term e r = App OP_RE_DERIVATIVE [e, r]"

definition mk_select :: "expr \<Rightarrow> expr \<Rightarrow> expr" where
  "mk_select f x = App OP_SELECT [f, x]"

subsection \<open>Heads and tails of sequences\<close>

definition mk_seq_concat_status :: "host \<Rightarrow> expr \<Rightarrow> expr \<Rightarrow> br_status" where
  "mk_seq_concat_status H x y =
     (let isc1 = (if h_coalesce_chars H then is_string x else None);
          isc2 = (if h_coalesce_chars H then is_string y else None)
      in case (isc1, isc2) of
           (Some s1, Some s2) \<Rightarrow> BR_DONE (mk_string (s1 @ s2))
         | _ \<Rightarrow>
          (case is_concat x of
             Some (c, d) \<Rightarrow> BR_REWRITE2 (mk_concat c (mk_concat d y))
           | None \<Rightarrow>
              if is_empty x then BR_DONE y
              else if is_empty y then BR_DONE x
              else (case (isc1, is_concat y) of
                      (Some s1, Some (c, d)) \<Rightarrow>
                        (case is_string c of
                           Some s2 \<Rightarrow> BR_DONE (mk_concat (mk_string (s1 @ s2)) d)
                         | None \<Rightarrow> BR_FAILED)
                    | _ \<Rightarrow> BR_FAILED)))"

definition result_or :: "br_status \<Rightarrow> expr \<Rightarrow> expr" where
  "result_or st dflt =
     (case st of
        BR_FAILED \<Rightarrow> dflt
      | BR_DONE e \<Rightarrow> e | BR_REWRITE1 e \<Rightarrow> e | BR_REWRITE2 e \<Rightarrow> e
      | BR_REWRITE3 e \<Rightarrow> e | BR_REWRITE_FULL e \<Rightarrow> e)"

definition mk_seq_concat :: "host \<Rightarrow> expr \<Rightarrow> expr \<Rightarrow> expr" where
  "mk_seq_concat H x y = result_or (mk_seq_concat_status H x y) (mk_concat x y)"

function get_head_tail :: "host \<Rightarrow> expr \<Rightarrow> (expr \<times> expr) option" where
  "get_head_tail H s =
     (case is_unit_seq s of
        Some h \<Rightarrow> Some (h, mk_empty)
      | None \<Rightarrow>
         (case (case is_string s of
                  Some s1 \<Rightarrow> if length s1 > 0 then Some s1 else None
                | None \<Rightarrow> None) of
            Some s1 \<Rightarrow> Some (mk_char (s1 ! 0), mk_string (drop 1 s1))
          | None \<Rightarrow>
             (case is_concat s of
                Some (h, t) \<Rightarrow>
                  (case get_head_tail H h of
                     Some (head, tail) \<Rightarrow> Some (head, mk_seq_concat H tail t)
                   | None \<Rightarrow> None)
              | None \<Rightarrow> None)))"
  by pat_completeness auto
termination
  by (relation "measure (\<lambda>(H, s). size s)") (auto dest: is_concat_size)

declare get_head_tail.simps [simp del]

function get_head_tail_reversed :: "host \<Rightarrow> expr \<Rightarrow> (expr \<times> expr) option" where
  "get_head_tail_reversed H s =
     (case is_unit_seq s of
        Some t \<Rightarrow> Some (mk_empty, t)
      | None \<Rightarrow>
         (case (case is_string s of
                  Some s1 \<Rightarrow> if length s1 > 0 then Some s1 else None
                | None \<Rightarrow> None) of
            Some s1 \<Rightarrow> Some (mk_string (butlast s1), mk_char (last s1))
          | None \<Rightarrow>
             (case is_concat s of
                Some (h, t) \<Rightarrow>
                  (case get_head_tail_reversed H t of
                     Some (head, tail) \<Rightarrow> Some (mk_seq_concat H h head, tail)
                   | None \<Rightarrow> None)
              | None \<Rightarrow> None)))"
  by pat_completeness auto
termination
  by (relation "measure (\<lambda>(H, s). size s)") (auto dest: is_concat_size)

declare get_head_tail_reversed.simps [simp del]

definition mk_sub :: "expr \<Rightarrow> int \<Rightarrow> expr" where
  "mk_sub x n =
     (case (case is_sub x of
              Some (a1, a2) \<Rightarrow> (case is_numeral a2 of Some k \<Rightarrow> Some (a1, k) | None \<Rightarrow> None)
            | None \<Rightarrow> None) of
        Some (a1, k) \<Rightarrow> mk_sub2 a1 (mk_int (k + n))
      | None \<Rightarrow>
     (case (case is_add x of
              Some (a1, a2) \<Rightarrow> (case is_numeral a2 of Some k \<Rightarrow> Some (a1, k) | None \<Rightarrow> None)
            | None \<Rightarrow> None) of
        Some (a1, k) \<Rightarrow> mk_add a1 (mk_int (k - n))
      | None \<Rightarrow>
     (case (case is_add x of
              Some (a1, a2) \<Rightarrow> (case is_numeral a1 of Some k \<Rightarrow> Some (a2, k) | None \<Rightarrow> None)
            | None \<Rightarrow> None) of
        Some (a2, k) \<Rightarrow> mk_add a2 (mk_int (k - n))
      | None \<Rightarrow> mk_sub2 x (mk_int n))))"

definition mk_seq_first :: "expr \<Rightarrow> expr" where
  "mk_seq_first t =
     (case is_extract t of Some (s, j, k) \<Rightarrow> mk_nth_i s j | None \<Rightarrow> mk_nth_c t 0)"

definition mk_seq_rest :: "expr \<Rightarrow> expr" where
  "mk_seq_rest t =
     (case (case is_extract t of
              Some (s, j, k) \<Rightarrow>
                (case is_numeral j of
                   Some jv \<Rightarrow> if jv \<ge> 0 then Some (s, jv, k) else None
                 | None \<Rightarrow> None)
            | None \<Rightarrow> None) of
        Some (s, jv, k) \<Rightarrow> mk_substr s (mk_int (jv + 1)) (mk_sub k 1)
      | None \<Rightarrow> mk_substr t one (mk_sub (mk_length t) 1))"

definition mk_seq_last :: "host \<Rightarrow> expr \<Rightarrow> expr" where
  "mk_seq_last H t =
     (case (case is_extract t of
              Some (s, j, k) \<Rightarrow>
                (case (is_numeral j, h_is_len_sub H k) of
                   (Some jv, Some (len_s, s', i)) \<Rightarrow>
                     if jv \<ge> 0 \<and> s = s' \<and> jv = i then Some (s, len_s) else None
                 | _ \<Rightarrow> None)
            | None \<Rightarrow> None) of
        Some (s, len_s) \<Rightarrow> mk_nth_i s (mk_sub len_s 1)
      | None \<Rightarrow> mk_nth_i t (mk_sub2 (mk_length t) one))"

definition mk_seq_butlast :: "expr \<Rightarrow> expr" where
  "mk_seq_butlast t = mk_substr t zero (mk_sub2 (mk_length t) one)"

subsection \<open>Concatenation and reversal of regexes, nullability\<close>

function mk_regex_concat :: "expr \<Rightarrow> expr \<Rightarrow> expr" where
  "mk_regex_concat r s =
     (if is_epsilon r \<or> is_re_empty s then s
      else if is_epsilon s \<or> is_re_empty r then r
      else if is_full_seq r \<and> is_full_seq s then r
      else if is_full_char r \<and> is_full_seq s then mk_re_plus mk_full_char
      else if is_full_seq r \<and> is_full_char s then mk_re_plus mk_full_char
      else (case is_re_concat r of
              Some (r1, r2) \<Rightarrow> mk_regex_concat r1 (mk_regex_concat r2 s)
            | None \<Rightarrow> mk_re_concat r s))"
  by pat_completeness auto
termination
  by (relation "measure (\<lambda>(r, s). size r)") (auto dest: is_re_concat_size)

declare mk_regex_concat.simps [simp del]

lemma is_unary_size: "is_unary k e = Some x \<Longrightarrow> size x < size e"
  by (auto dest!: is_unary_SomeD)

lemma is_binary_size: "is_binary k e = Some (x, y) \<Longrightarrow> size x < size e \<and> size y < size e"
  by (auto dest!: is_binary_SomeD)

lemma is_ternary_size:
  "is_ternary k e = Some (x, y, z) \<Longrightarrow> size x < size e \<and> size y < size e \<and> size z < size e"
  by (auto dest!: is_ternary_SomeD)

lemma is_loop1_size: "is_loop1 e = Some (x, lo) \<Longrightarrow> size x < size e"
  by (cases e) (auto simp: is_loop1_def split: decl.splits list.splits)

lemma is_loop2_size: "is_loop2 e = Some (x, lo, hi) \<Longrightarrow> size x < size e"
  by (cases e) (auto simp: is_loop2_def split: decl.splits list.splits)

lemmas re_size_simps = is_to_re_def is_re_concat_def is_union_def is_intersection_def
  is_complement_def is_plus_def is_opt_def is_star_def is_reverse_def is_of_pred_def
  is_diff_def is_range_def is_derivative_def is_antimirov_union_def is_ite_def is_concat_def

function mk_regex_reverse :: "expr \<Rightarrow> expr" where
  "mk_regex_reverse r =
     (if is_re_empty r \<or> is_range r \<noteq> None \<or> is_epsilon r \<or> is_full_seq r
         \<or> is_full_char r \<or> is_dot_plus r \<or> is_of_pred r \<noteq> None then r
      else if is_to_re r \<noteq> None then mk_reverse r
      else (case is_reverse r of Some r1 \<Rightarrow> r1 | None \<Rightarrow>
           (case is_re_concat r of
              Some (r1, r2) \<Rightarrow> mk_regex_concat (mk_regex_reverse r2) (mk_regex_reverse r1)
            | None \<Rightarrow>
           (case is_ite r of
              Some (c, r1, r2) \<Rightarrow> mk_ite c (mk_regex_reverse r1) (mk_regex_reverse r2)
            | None \<Rightarrow>
           (case is_union r of
              Some (r1, r2) \<Rightarrow> mk_union (mk_regex_reverse r1) (mk_regex_reverse r2)
            | None \<Rightarrow>
           (case is_intersection r of
              Some (r1, r2) \<Rightarrow> mk_inter (mk_regex_reverse r1) (mk_regex_reverse r2)
            | None \<Rightarrow>
           (case is_diff r of
              Some (r1, r2) \<Rightarrow> mk_diff (mk_regex_reverse r1) (mk_regex_reverse r2)
            | None \<Rightarrow>
           (case is_star r of Some r1 \<Rightarrow> mk_star (mk_regex_reverse r1) | None \<Rightarrow>
           (case is_plus r of Some r1 \<Rightarrow> mk_re_plus (mk_regex_reverse r1) | None \<Rightarrow>
           (case is_loop1 r of Some (r1, lo) \<Rightarrow> mk_loop1 (mk_regex_reverse r1) lo | None \<Rightarrow>
           (case is_loop2 r of
              Some (r1, lo, hi) \<Rightarrow> mk_loop_proper (mk_regex_reverse r1) lo hi
            | None \<Rightarrow>
           (case is_opt r of Some r1 \<Rightarrow> mk_opt (mk_regex_reverse r1) | None \<Rightarrow>
           (case is_complement r of
              Some r1 \<Rightarrow> mk_complement (mk_regex_reverse r1)
            | None \<Rightarrow> mk_reverse r)))))))))))))"
  by pat_completeness auto
termination
  by (relation "measure size")
     (auto simp: re_size_simps
        dest: is_unary_size is_binary_size is_ternary_size is_loop1_size is_loop2_size)

declare mk_regex_reverse.simps [simp del]

function is_nullable_symbolic_loop :: "expr \<Rightarrow> expr \<Rightarrow> expr \<times> expr" where
  "is_nullable_symbolic_loop r1 elems =
     (case is_derivative r1 of
        Some (elem, r2) \<Rightarrow>
          is_nullable_symbolic_loop r2
            (if is_empty elems then mk_unit elem else mk_concat (mk_unit elem) elems)
      | None \<Rightarrow> (r1, elems))"
  by pat_completeness auto
termination
  by (relation "measure (\<lambda>(r1, elems). size r1)")
     (auto simp: is_derivative_def dest: is_binary_size)

declare is_nullable_symbolic_loop.simps [simp del]

definition is_nullable_symbolic_regex :: "expr \<Rightarrow> expr" where
  "is_nullable_symbolic_regex r =
     (let (r1, elems) = is_nullable_symbolic_loop r mk_empty in
      case is_to_re r1 of
        Some s \<Rightarrow> mk_eq elems s
      | None \<Rightarrow> mk_in_re mk_empty r)"

function is_nullable :: "host \<Rightarrow> expr \<Rightarrow> expr" where
  "is_nullable H r =
     (case (case is_re_concat r of Some p \<Rightarrow> Some p | None \<Rightarrow> is_intersection r) of
        Some (r1, r2) \<Rightarrow> h_br_mk_and H (is_nullable H r1) (is_nullable H r2)
      | None \<Rightarrow>
     (case (case is_union r of Some p \<Rightarrow> Some p | None \<Rightarrow> is_antimirov_union r) of
        Some (r1, r2) \<Rightarrow> h_br_mk_or H (is_nullable H r1) (is_nullable H r2)
      | None \<Rightarrow>
     (case is_diff r of
        Some (r1, r2) \<Rightarrow> h_br_mk_and H (h_br_mk_not H (is_nullable H r2)) (is_nullable H r1)
      | None \<Rightarrow>
     if is_star r \<noteq> None \<or> is_opt r \<noteq> None \<or> is_full_seq r \<or> is_epsilon r
        \<or> (case is_loop1 r of Some (r1, lo) \<Rightarrow> lo = 0 | None \<Rightarrow> False)
        \<or> (case is_loop2 r of Some (r1, lo, hi) \<Rightarrow> lo = 0 | None \<Rightarrow> False) then mk_true
     else if is_full_char r \<or> is_re_empty r \<or> is_of_pred r \<noteq> None \<or> is_range r \<noteq> None
     then mk_false
     else
     (case (case is_plus r of
              Some r1 \<Rightarrow> Some r1
            | None \<Rightarrow>
             (case is_loop1 r of
                Some (r1, lo) \<Rightarrow> Some r1
              | None \<Rightarrow>
               (case is_loop2 r of
                  Some (r1, lo, hi) \<Rightarrow> Some r1
                | None \<Rightarrow> is_reverse r))) of
        Some r1 \<Rightarrow> is_nullable H r1
      | None \<Rightarrow>
     (case is_complement r of
        Some r1 \<Rightarrow> h_br_mk_not H (is_nullable H r1)
      | None \<Rightarrow>
     (case is_to_re r of
        Some r1 \<Rightarrow> is_nullable H r1
      | None \<Rightarrow>
     (case is_ite r of
        Some (cond, r1, r2) \<Rightarrow> h_br_mk_ite H cond (is_nullable H r1) (is_nullable H r2)
      | None \<Rightarrow>
     if h_is_re H r then is_nullable_symbolic_regex r
     else
     (case is_concat r of
        Some (r1, r2) \<Rightarrow> h_br_mk_and H (is_nullable H r1) (is_nullable H r2)
      | None \<Rightarrow>
     if is_empty r then mk_true
     else if is_unit_seq r \<noteq> None then mk_false
     else (case is_string r of
             Some s1 \<Rightarrow> mk_bool_val (length s1 = 0)
           | None \<Rightarrow> mk_eq mk_empty r)))))))))"
  by pat_completeness auto
termination
  by (relation "measure (\<lambda>(H, r). size r)")
     (auto simp: re_size_simps split: option.splits
        dest: is_unary_size is_binary_size is_ternary_size is_loop1_size is_loop2_size)

declare is_nullable.simps [simp del]

subsection \<open>Operations on derivatives\<close>

function mk_antimirov_deriv_union :: "host \<Rightarrow> expr \<Rightarrow> expr \<Rightarrow> expr" where
  "mk_antimirov_deriv_union H d1 d2 =
     (case (case (is_ite d1, is_ite d2) of
              (Some (c1, t1, e1), Some (c2, t2, e2)) \<Rightarrow>
                 if c1 = c2 then Some (c1, t1, e1, t2, e2) else None
            | _ \<Rightarrow> None) of
        Some (c1, t1, e1, t2, e2) \<Rightarrow>
          mk_ite c1 (mk_antimirov_deriv_union H t1 t2) (mk_antimirov_deriv_union H e1 e2)
      | None \<Rightarrow> mk_regex_union_normalize (h_get_info H) (h_get_id H) d1 d2)"
  by pat_completeness auto
termination
  by (relation "measure (\<lambda>(H, d1, d2). size d1)")
     (auto simp: is_ite_def split: option.splits if_splits dest!: is_ternary_SomeD)

declare mk_antimirov_deriv_union.simps [simp del]

function mk_antimirov_deriv_concat :: "host \<Rightarrow> expr \<Rightarrow> expr \<Rightarrow> expr" where
  "mk_antimirov_deriv_concat H d r =
     (case is_ite d of
        Some (c, t, e) \<Rightarrow>
          (let r2 = mk_antimirov_deriv_concat H e r;
               r1 = mk_antimirov_deriv_concat H t r
           in mk_ite c r1 r2)
      | None \<Rightarrow>
         (case is_union d of
            Some (t, e) \<Rightarrow>
              mk_antimirov_deriv_union H (mk_antimirov_deriv_concat H t r)
                (mk_antimirov_deriv_concat H e r)
          | None \<Rightarrow> h_mk_re_append H d r))"
  by pat_completeness auto
termination
  by (relation "measure (\<lambda>(H, d, r). size d)")
     (auto simp: is_ite_def is_union_def dest: is_ternary_size is_binary_size)

declare mk_antimirov_deriv_concat.simps [simp del]

function mk_antimirov_deriv_restrict :: "host \<Rightarrow> expr \<Rightarrow> expr \<Rightarrow> expr \<Rightarrow> expr" where
  "mk_antimirov_deriv_restrict H e d cond =
     (if is_false cond then mk_re_empty
      else if is_re_empty d \<or> is_true cond then d
      else (case is_ite d of
              Some (c, x, y) \<Rightarrow>
                (let path_and_c = simplify_path (h_max_char H) (h_is_char H) e (mk_and [cond, c]);
                     path_and_notc =
                       simplify_path (h_max_char H) (h_is_char H) e (mk_and [cond, mk_not c])
                 in mk_ite_simplify c (mk_antimirov_deriv_restrict H e x path_and_c)
                      (mk_antimirov_deriv_restrict H e y path_and_notc))
            | None \<Rightarrow>
               (case is_union d of
                  Some (x, y) \<Rightarrow>
                    mk_antimirov_deriv_union H (mk_antimirov_deriv_restrict H e x cond)
                      (mk_antimirov_deriv_restrict H e y cond)
                | None \<Rightarrow> d)))"
  by pat_completeness auto
termination
  by (relation "measure (\<lambda>(H, e, d, cond). size d)")
     (auto simp: is_ite_def is_union_def dest: is_ternary_size is_binary_size)

declare mk_antimirov_deriv_restrict.simps [simp del]

function mk_antimirov_deriv_intersection ::
  "host \<Rightarrow> expr \<Rightarrow> expr \<Rightarrow> expr \<Rightarrow> expr \<Rightarrow> expr" where
  "mk_antimirov_deriv_intersection H e d1 d2 path =
     (if is_re_empty d1 then d1
      else if is_re_empty d2 then d2
      else (case is_ite d1 of
        Some (c, x, y) \<Rightarrow>
          (let path_and_c = simplify_path (h_max_char H) (h_is_char H) e (mk_and [path, c]);
               path_and_notc =
                 simplify_path (h_max_char H) (h_is_char H) e (mk_and [path, mk_not c])
           in if is_false path_and_c then mk_antimirov_deriv_intersection H e y d2 path
              else if is_false path_and_notc then mk_antimirov_deriv_intersection H e x d2 path
              else mk_ite c (mk_antimirov_deriv_intersection H e x d2 path_and_c)
                     (mk_antimirov_deriv_intersection H e y d2 path_and_notc))
      | None \<Rightarrow>
        if is_ite d2 \<noteq> None then mk_antimirov_deriv_intersection H e d2 d1 path
        else if d1 = d2 \<or> is_full_seq d2 then mk_antimirov_deriv_restrict H e d1 path
        else if is_full_seq d1 then mk_antimirov_deriv_restrict H e d2 path
        else (case is_union d1 of
          Some (x, y) \<Rightarrow>
            mk_antimirov_deriv_union H (mk_antimirov_deriv_intersection H e x d2 path)
              (mk_antimirov_deriv_intersection H e y d2 path)
        | None \<Rightarrow>
          (case is_union d2 of
             Some (x, y) \<Rightarrow>
               mk_antimirov_deriv_union H (mk_antimirov_deriv_intersection H e d1 x path)
                 (mk_antimirov_deriv_intersection H e d1 y path)
           | None \<Rightarrow> mk_regex_inter_normalize (h_get_info H) (h_get_id H) d1 d2))))"
  by pat_completeness auto
termination
  by (relation "measure (\<lambda>(H, e, d1, d2, path).
        2 * (size d1 + size d2) + (if is_ite d1 = None \<and> is_ite d2 \<noteq> None then 1 else 0))")
     (auto simp: is_ite_def is_union_def dest: is_ternary_size is_binary_size)

declare mk_antimirov_deriv_intersection.simps [simp del]

function mk_antimirov_deriv_negate :: "host \<Rightarrow> expr \<Rightarrow> expr \<Rightarrow> expr" where
  "mk_antimirov_deriv_negate H elem d =
     (if is_re_empty d then mk_full_seq
      else if is_epsilon d then mk_re_plus mk_full_char
      else if is_full_seq d then mk_re_empty
      else if is_dot_plus d then mk_epsilon
      else (case is_ite d of
        Some (c, t, e) \<Rightarrow>
          mk_ite c (mk_antimirov_deriv_negate H elem t) (mk_antimirov_deriv_negate H elem e)
      | None \<Rightarrow>
        (case is_union d of
           Some (t, e) \<Rightarrow>
             mk_antimirov_deriv_intersection H elem (mk_antimirov_deriv_negate H elem t)
               (mk_antimirov_deriv_negate H elem e) mk_true
         | None \<Rightarrow>
        (case is_intersection d of
           Some (t, e) \<Rightarrow>
             mk_antimirov_deriv_union H (mk_antimirov_deriv_negate H elem t)
               (mk_antimirov_deriv_negate H elem e)
         | None \<Rightarrow>
        (case is_complement d of
           Some t \<Rightarrow> t
         | None \<Rightarrow> mk_complement d)))))"
  by pat_completeness auto
termination
  by (relation "measure (\<lambda>(H, elem, d). size d)")
     (auto simp: is_ite_def is_union_def is_intersection_def
        dest: is_ternary_size is_binary_size)

declare mk_antimirov_deriv_negate.simps [simp del]

subsection \<open>The derivative\<close>

text \<open>
  \<^verbatim>\<open>re_and\<close> and \<^verbatim>\<open>re_predicate\<close>, and the guard of the derivative of a range:
  the formula \<^verbatim>\<open>range\<close> and its conjunction \<^verbatim>\<open>psi\<close> with the path, both passed
  through \<^verbatim>\<open>simplify_path\<close>. When neither of the four shapes of the bounds applies,
  \<^verbatim>\<open>psi\<close> stays \<open>false\<close> and no guard is built.
\<close>

definition range_guard :: "host \<Rightarrow> expr \<Rightarrow> expr \<Rightarrow> expr \<Rightarrow> expr \<Rightarrow> (expr \<times> expr) option" where
  "range_guard H e r1 r2 path =
     (let sp = simplify_path (h_max_char H) (h_is_char H) e;
          len1 = (\<lambda>r. mk_eq (mk_length r) one);
          at0 = (\<lambda>r. mk_nth_i r zero);
          with_path = (\<lambda>rng. Some (rng, sp (mk_and [path, rng])))
      in case (is_unit_string r1, is_unit_string r2) of
           (Some c1, Some c2) \<Rightarrow> with_path (sp (mk_and [mk_le c1 e, mk_le e c2]))
         | (None, Some c2) \<Rightarrow>
             if is_string r1 = None
             then with_path (sp (mk_and [len1 r1, mk_and [mk_le (at0 r1) e, mk_le e c2]]))
             else None
         | (Some c1, None) \<Rightarrow>
             if is_string r2 = None
             then with_path (sp (mk_and [len1 r2, mk_and [mk_le c1 e, mk_le e (at0 r2)]]))
             else None
         | (None, None) \<Rightarrow>
             if is_string r1 = None \<and> is_string r2 = None
             then with_path (sp (mk_and [len1 r1, mk_and [len1 r2,
                                  mk_and [mk_le (at0 r1) e, mk_le e (at0 r2)]]]))
             else None)"

definition eq_char :: "expr \<Rightarrow> expr \<Rightarrow> bool" where
  "eq_char ch1 ch2 = (ch1 = ch2)"

definition neq_char :: "expr \<Rightarrow> expr \<Rightarrow> bool" where
  "neq_char ch1 ch2 =
     (case const_pair ch1 ch2 of Some (u1, u2) \<Rightarrow> u1 \<noteq> u2 | None \<Rightarrow> False)"

text \<open>
  \<^verbatim>\<open>mk_antimirov_deriv\<close> with \<^verbatim>\<open>mk_antimirov_deriv_rec\<close>. The recursion is not
  structural (the derivative of a reversed regex is the derivative of the regex that
  \<^verbatim>\<open>mk_regex_reverse\<close> builds), so the model counts the nesting of calls down from a
  bound and answers \<open>None\<close> when the bound is reached.
\<close>

primrec mk_antimirov_deriv :: "nat \<Rightarrow> host \<Rightarrow> expr \<Rightarrow> expr \<Rightarrow> expr \<Rightarrow> expr option" where
  "mk_antimirov_deriv 0 H e r path = None"
| "mk_antimirov_deriv (Suc n) H e r path =
     (if is_re_empty r \<or> is_epsilon r then Some mk_re_empty
      else if is_full_seq r \<or> is_dot_plus r then Some mk_full_seq
      else if is_full_char r then Some mk_epsilon
      else (case is_to_re r of
        Some r1 \<Rightarrow>
          (case get_head_tail H r1 of
             Some (h, t) \<Rightarrow>
               Some (if eq_char e h then mk_to_re t
                     else if neq_char e h then mk_re_empty
                     else mk_ite_simplify (mk_eq e h) (mk_to_re t) mk_re_empty)
           | None \<Rightarrow>
               (let c1 = h_br_mk_and H (mk_not (mk_eq r1 mk_empty)) (mk_eq (mk_seq_first r1) e);
                    c2 = h_br_mk_and H path c1
                in Some (if is_false c2 then mk_re_empty
                         else mk_ite c1 (mk_to_re (mk_seq_rest r1)) mk_re_empty)))
      | None \<Rightarrow>
      (case is_reverse r of
        Some r2 \<Rightarrow>
          (case is_to_re r2 of
             Some r1 \<Rightarrow>
               (let c1 = h_br_mk_and H (mk_not (mk_eq r1 mk_empty))
                           (mk_eq (mk_seq_last H r1) e);
                    c2 = h_br_mk_and H path c1
                in Some (if is_false c2 then mk_re_empty
                         else mk_ite_simplify c1 (mk_reverse (mk_to_re (mk_seq_butlast r1)))
                                mk_re_empty))
           | None \<Rightarrow>
               (let result = mk_regex_reverse r2
                in if result = r then Some (mk_re_derivative_term e result)
                   else mk_antimirov_deriv n H e result path))
      | None \<Rightarrow>
      (case is_re_concat r of
        Some (r1, r2) \<Rightarrow>
          (let r1nullable = is_nullable H r1 in
           case mk_antimirov_deriv n H e r1 path of
             None \<Rightarrow> None
           | Some d1 \<Rightarrow>
               (let c1 = mk_antimirov_deriv_concat H d1 r2;
                    r1nullable_and_path = h_br_mk_and H r1nullable path
                in if is_false r1nullable_and_path then Some c1
                   else (case mk_antimirov_deriv n H e r2 path of
                           None \<Rightarrow> None
                         | Some d2 \<Rightarrow>
                             Some (mk_antimirov_deriv_union H c1
                                     (mk_ite_simplify r1nullable d2 mk_re_empty)))))
      | None \<Rightarrow>
      (case is_ite r of
        Some (c, r1, r2) \<Rightarrow>
          (let c1 = simplify_path (h_max_char H) (h_is_char H) e (mk_and [c, path]);
               c2 = simplify_path (h_max_char H) (h_is_char H) e (mk_and [mk_not c, path])
           in if is_false c1 then mk_antimirov_deriv n H e r2 c2
              else if is_false c2 then mk_antimirov_deriv n H e r1 c1
              else (case (mk_antimirov_deriv n H e r1 c1, mk_antimirov_deriv n H e r2 c2) of
                      (Some d1, Some d2) \<Rightarrow> Some (mk_ite_simplify c d1 d2)
                    | _ \<Rightarrow> None))
      | None \<Rightarrow>
      (case is_range r of
        Some (r1, r2) \<Rightarrow>
          (case range_guard H e r1 r2 path of
             Some (rng, psi) \<Rightarrow>
               Some (if is_false psi then mk_re_empty
                     else mk_ite_simplify rng mk_epsilon mk_re_empty)
           | None \<Rightarrow> Some mk_re_empty)
      | None \<Rightarrow>
      (case is_union r of
        Some (r1, r2) \<Rightarrow>
          (case (mk_antimirov_deriv n H e r1 path, mk_antimirov_deriv n H e r2 path) of
             (Some d1, Some d2) \<Rightarrow> Some (mk_antimirov_deriv_union H d1 d2)
           | _ \<Rightarrow> None)
      | None \<Rightarrow>
      (case is_intersection r of
        Some (r1, r2) \<Rightarrow>
          (case (mk_antimirov_deriv n H e r1 path, mk_antimirov_deriv n H e r2 path) of
             (Some d1, Some d2) \<Rightarrow> Some (mk_antimirov_deriv_intersection H e d1 d2 mk_true)
           | _ \<Rightarrow> None)
      | None \<Rightarrow>
      (case (case is_star r of
               Some r1 \<Rightarrow> Some r1
             | None \<Rightarrow>
              (case is_plus r of
                 Some r1 \<Rightarrow> Some r1
               | None \<Rightarrow>
                (case is_loop1 r of
                   Some (r1, lo) \<Rightarrow> if 0 \<le> lo \<and> lo \<le> 1 then Some r1 else None
                 | None \<Rightarrow> None))) of
        Some r1 \<Rightarrow>
          map_option (\<lambda>d1. mk_antimirov_deriv_concat H d1 (mk_star r1))
            (mk_antimirov_deriv n H e r1 path)
      | None \<Rightarrow>
      (case is_loop1 r of
        Some (r1, lo) \<Rightarrow>
          map_option (\<lambda>d1. mk_antimirov_deriv_concat H d1 (mk_loop1 r1 (lo - 1)))
            (mk_antimirov_deriv n H e r1 path)
      | None \<Rightarrow>
      (case is_loop2 r of
        Some (r1, lo, hi) \<Rightarrow>
          if (lo = 0 \<and> hi = 0) \<or> hi < lo then Some mk_re_empty
          else map_option
                 (\<lambda>d1. mk_antimirov_deriv_concat H d1
                          (mk_loop_proper r1 (if lo = 0 then 0 else lo - 1) (hi - 1)))
                 (mk_antimirov_deriv n H e r1 path)
      | None \<Rightarrow>
      (case is_opt r of
        Some r1 \<Rightarrow> mk_antimirov_deriv n H e r1 path
      | None \<Rightarrow>
      (case is_complement r of
        Some r1 \<Rightarrow>
          map_option (mk_antimirov_deriv_negate H e) (mk_antimirov_deriv n H e r1 path)
      | None \<Rightarrow>
      (case is_diff r of
        Some (r1, r2) \<Rightarrow>
          (case (mk_antimirov_deriv n H e r1 path, mk_antimirov_deriv n H e r2 path) of
             (Some d1, Some d2) \<Rightarrow>
               Some (mk_antimirov_deriv_intersection H e d1
                       (mk_antimirov_deriv_negate H e d2) mk_true)
           | _ \<Rightarrow> None)
      | None \<Rightarrow>
      (case is_of_pred r of
        Some r1 \<Rightarrow> Some (h_mk_der_cond H (mk_select r1 e) e)
      | None \<Rightarrow> Some (mk_re_derivative_term e r))))))))))))))))"

definition mk_derivative :: "nat \<Rightarrow> host \<Rightarrow> expr \<Rightarrow> expr \<Rightarrow> expr option" where
  "mk_derivative fuel H ele r = mk_antimirov_deriv fuel H ele r mk_true"

subsection \<open>A host for the examples\<close>

text \<open>
  A host that does no rewriting of its own: the Boolean rewriter builds the connective,
  the length bounds are the trivial ones, every uninterpreted constant and every
  character constant is of character sort, and the largest character is the one of
  Unicode mode.
\<close>

definition example_host :: host where
  "example_host =
     \<lparr> h_max_char = 196607,
       h_is_char = (\<lambda>e. is_uninterp_const e \<or> is_const_char e \<noteq> None),
       h_is_re = (\<lambda>e. False),
       h_coalesce_chars = True,
       h_get_info = literal_info,
       h_get_id = (\<lambda>e. 0),
       h_br_mk_and = (\<lambda>a b. mk_and [a, b]),
       h_br_mk_or = (\<lambda>a b. mk_or [a, b]),
       h_br_mk_not = mk_not,
       h_br_mk_ite = mk_ite,
       h_mk_eq_rw = mk_eq,
       h_mk_re_append = mk_re_concat,
       h_mk_der_cond = (\<lambda>c e. c),
       h_is_len_sub = (\<lambda>e. None),
       h_str_min_length = (\<lambda>e. 0),
       h_re_min_length = (\<lambda>e. 0),
       h_re_max_length = (\<lambda>e. UINT_MAX),
       h_is_ground = (\<lambda>e. False) \<rparr>"

section \<open>Membership in a regex\<close>

definition is_in_re :: "expr \<Rightarrow> bool" where
  "is_in_re e = is_app_of e OP_SEQ_IN_RE 2"

definition mk_prefix :: "expr \<Rightarrow> expr \<Rightarrow> expr" where
  "mk_prefix a b = App OP_SEQ_PREFIX [a, b]"

definition mk_suffix :: "expr \<Rightarrow> expr \<Rightarrow> expr" where
  "mk_suffix a b = App OP_SEQ_SUFFIX [a, b]"

definition mk_contains :: "expr \<Rightarrow> expr \<Rightarrow> expr" where
  "mk_contains a b = App OP_SEQ_CONTAINS [a, b]"

text \<open>\<^verbatim>\<open>lift_str_from_to_re\<close> with \<^verbatim>\<open>lift_str_from_to_re_ite\<close>.\<close>

function lift_str_from_to_re :: "expr \<Rightarrow> expr option" where
  "lift_str_from_to_re r =
     (case is_to_re r of
        Some s \<Rightarrow> Some s
      | None \<Rightarrow>
         (case is_ite r of
            Some (cond, then_r, else_r) \<Rightarrow>
              (case lift_str_from_to_re then_r of
                 Some then_s \<Rightarrow>
                   (case lift_str_from_to_re else_r of
                      Some else_s \<Rightarrow> Some (mk_ite cond then_s else_s)
                    | None \<Rightarrow> None)
               | None \<Rightarrow> None)
          | None \<Rightarrow> None))"
  by pat_completeness auto
termination
  by (relation "measure size") (auto dest: is_ite_size)

declare lift_str_from_to_re.simps [simp del]

definition get_re_head_tail :: "host \<Rightarrow> expr \<Rightarrow> (expr \<times> expr) option" where
  "get_re_head_tail H r =
     (case is_re_concat r of
        Some (r1, r2) \<Rightarrow>
          if h_re_min_length H r1 \<noteq> UINT_MAX \<and> h_re_max_length H r1 = h_re_min_length H r1
          then Some (r1, r2) else None
      | None \<Rightarrow> None)"

function get_re_head_tail_reversed :: "host \<Rightarrow> expr \<Rightarrow> (expr \<times> expr) option" where
  "get_re_head_tail_reversed H r =
     (case is_re_concat r of
        Some (r1, r2) \<Rightarrow>
          if h_re_min_length H r2 \<noteq> UINT_MAX
             \<and> h_re_max_length H r2 = h_re_min_length H r2 then
            (case get_re_head_tail_reversed H r1 of
               Some (head, tail) \<Rightarrow> Some (head, h_mk_re_append H tail r2)
             | None \<Rightarrow> Some (r1, r2))
          else
            (case get_re_head_tail_reversed H r2 of
               Some (head, tail) \<Rightarrow> Some (h_mk_re_append H r1 head, tail)
             | None \<Rightarrow> None)
      | None \<Rightarrow> None)"
  by pat_completeness auto
termination
  by (relation "measure (\<lambda>(H, r). size r)") (auto dest!: is_re_concat_size)

declare get_re_head_tail_reversed.simps [simp del]

text \<open>\<^verbatim>\<open>mk_in_antimirov\<close> with \<^verbatim>\<open>mk_in_antimirov_rec\<close>.\<close>

function mk_in_antimirov :: "host \<Rightarrow> expr \<Rightarrow> expr \<Rightarrow> expr" where
  "mk_in_antimirov H s d =
     (if is_full_seq d \<or> (h_str_min_length H s > 0 \<and> is_dot_plus d) then mk_true
      else if is_re_empty d \<or> (h_str_min_length H s > 0 \<and> is_epsilon d) then mk_false
      else (case is_ite d of
        Some (c, d1, d2) \<Rightarrow>
          mk_ite_simplify c (mk_in_antimirov H s d1) (mk_in_antimirov H s d2)
      | None \<Rightarrow>
      (case is_union d of
        Some (d1, d2) \<Rightarrow> h_br_mk_or H (mk_in_antimirov H s d1) (mk_in_antimirov H s d2)
      | None \<Rightarrow> mk_in_re s d)))"
  by pat_completeness auto
termination
  by (relation "measure (\<lambda>(H, s, d). size d)")
     (auto simp: is_union_def dest: is_ite_size is_binary_size)

declare mk_in_antimirov.simps [simp del]

text \<open>
  The loop of \<^verbatim>\<open>mk_str_in_regexp\<close> over the characters of a string literal: the
  derivative by each character in turn. The answer is \<open>Inl ()\<close> when the regex became
  empty before the end of the string, and \<open>Inr r\<close> with the last regex otherwise.
\<close>

fun derive_string :: "nat \<Rightarrow> host \<Rightarrow> zstring \<Rightarrow> expr \<Rightarrow> (unit + expr) option" where
  "derive_string fuel H [] r = Some (Inr r)"
| "derive_string fuel H (ch # s) r =
     (if is_re_empty r then Some (Inl ())
      else (case mk_derivative fuel H (mk_char ch) r of
              Some new_r \<Rightarrow> derive_string fuel H s new_r
            | None \<Rightarrow> None))"

text \<open>
  \<^verbatim>\<open>mk_str_in_regexp\<close>. The first component of the literal rule is the answer of the
  rule when it gives one. The two rules that are switched off in the source
  (\<^verbatim>\<open>false && ...\<close>: the complement and \<^verbatim>\<open>rewrite_contains_pattern\<close>) never fire.
\<close>

definition in_re_literal :: "nat \<Rightarrow> host \<Rightarrow> expr \<Rightarrow> expr \<Rightarrow> br_status option option" where
  "in_re_literal fuel H a b =
     (case is_string a of
        Some s \<Rightarrow>
          if h_is_ground H b then
            (case derive_string fuel H s b of
               None \<Rightarrow> None
             | Some (Inl u) \<Rightarrow> Some (Some (BR_DONE mk_false))
             | Some (Inr r) \<Rightarrow>
                 (case info_nullable (h_get_info H r) of
                    l_true \<Rightarrow> Some (Some (BR_DONE mk_true))
                  | l_false \<Rightarrow> Some (Some (BR_DONE mk_false))
                  | l_undef \<Rightarrow> Some None))
          else Some None
      | None \<Rightarrow> Some None)"

definition mk_str_in_regexp :: "nat \<Rightarrow> host \<Rightarrow> expr \<Rightarrow> expr \<Rightarrow> br_status option" where
  "mk_str_in_regexp fuel H a b =
     (if is_re_empty b then Some (BR_DONE mk_false)
      else if is_full_seq b then Some (BR_DONE mk_true)
      else (case in_re_literal fuel H a b of
        None \<Rightarrow> None
      | Some (Some st) \<Rightarrow> Some st
      | Some None \<Rightarrow>
      (case lift_str_from_to_re b of
        Some b_s \<Rightarrow> Some (BR_REWRITE_FULL (h_mk_eq_rw H a b_s))
      | None \<Rightarrow>
      (case (case is_re_concat b of
               Some (c, d) \<Rightarrow>
                 (case is_to_re c of
                    Some e \<Rightarrow> if is_full_seq d then Some e else None
                  | None \<Rightarrow> None)
             | None \<Rightarrow> None) of
        Some e \<Rightarrow> Some (BR_REWRITE1 (mk_prefix e a))
      | None \<Rightarrow>
      (case (case is_re_concat b of
               Some (c, d) \<Rightarrow>
                 (case is_to_re d of
                    Some e \<Rightarrow> if is_full_seq c then Some e else None
                  | None \<Rightarrow> None)
             | None \<Rightarrow> None) of
        Some e \<Rightarrow> Some (BR_REWRITE1 (mk_suffix e a))
      | None \<Rightarrow>
      (case (case is_opt b of
               Some b1 \<Rightarrow> Some b1
             | None \<Rightarrow>
                (case is_union b of
                   Some (x, y) \<Rightarrow>
                     if is_epsilon y then Some x else if is_epsilon x then Some y else None
                 | None \<Rightarrow> None)) of
        Some b1 \<Rightarrow>
          Some (BR_REWRITE_FULL
                  (mk_ite (mk_eq (mk_length a) zero) mk_true (mk_in_re a b1)))
      | None \<Rightarrow>
      if is_empty a then
        (let result = is_nullable H b
         in Some (if is_in_re result then BR_DONE result else BR_REWRITE_FULL result))
      else
      (case get_head_tail H a of
        Some (head, tail) \<Rightarrow>
          (case mk_antimirov_deriv fuel H head b mk_true of
             Some d \<Rightarrow> Some (BR_REWRITE_FULL (mk_in_antimirov H tail d))
           | None \<Rightarrow> None)
      | None \<Rightarrow>
      (case get_head_tail_reversed H a of
        Some (head, tail) \<Rightarrow>
          Some (BR_REWRITE_FULL
                  (mk_in_re head (mk_reverse (mk_re_derivative_term tail (mk_reverse b)))))
      | None \<Rightarrow>
      (case get_re_head_tail H b of
        Some (head, tail) \<Rightarrow>
          (let len_hd = mk_int (int (h_re_min_length H head));
               len_a = mk_length a;
               len_tl = mk_sub2 len_a len_hd
           in Some (BR_REWRITE_FULL
                      (mk_and [mk_ge len_a len_hd,
                               mk_in_re (mk_substr a zero len_hd) head,
                               mk_in_re (mk_substr a len_hd len_tl) tail])))
      | None \<Rightarrow>
      (case get_re_head_tail_reversed H b of
        Some (head, tail) \<Rightarrow>
          (let len_tl = mk_int (int (h_re_min_length H tail));
               len_a = mk_length a;
               len_hd = mk_sub2 len_a len_tl
           in Some (BR_REWRITE_FULL
                      (mk_and [mk_ge len_a len_tl,
                               mk_in_re (mk_substr a zero len_hd) head,
                               (case is_to_re tail of
                                  Some s \<Rightarrow> mk_eq s (mk_substr a len_hd len_tl)
                                | None \<Rightarrow> mk_in_re (mk_substr a len_hd len_tl) tail)])))
      | None \<Rightarrow> Some BR_FAILED))))))))))"

section \<open>The equation reducer\<close>

text \<open>
  The functions of the term manager that the reducer calls and that are not part of the
  file are parameters: \<^verbatim>\<open>m().are_distinct\<close>, \<^verbatim>\<open>m().are_equal\<close>, \<^verbatim>\<open>m().is_value\<close>
  and the hash of a vector of terms. A reducer stage answers \<open>No\<close> when the source returns
  \<open>false\<close>, \<open>Yes\<close> with the vectors and the new equations when it returns \<open>true\<close>, and
  \<open>Stuck\<close> where the source reads what one of its assertions excludes.
\<close>

record manager =
  m_are_distinct :: "expr \<Rightarrow> expr \<Rightarrow> bool"
  m_are_equal :: "expr \<Rightarrow> expr \<Rightarrow> bool"
  m_is_value :: "expr \<Rightarrow> bool"
  m_hash :: "expr list \<Rightarrow> nat"

datatype 'a answer = Stuck | No | Yes 'a

type_synonym expr_pairs = "(expr \<times> expr) list"

type_synonym eq_state = "expr list \<times> expr list \<times> expr_pairs"

text \<open>\<^verbatim>\<open>str().get_concat\<close>: the arguments of nested concatenations, without the empty ones.\<close>

function get_concat :: "expr \<Rightarrow> expr list" where
  "get_concat e =
     (case is_concat e of
        Some (e1, e2) \<Rightarrow> get_concat e1 @ get_concat e2
      | None \<Rightarrow> if is_empty e then [] else [e])"
  by pat_completeness auto
termination
  by (relation "measure size") (auto dest: is_concat_size)

declare get_concat.simps [simp del]

definition remove_empty_and_concats :: "expr list \<Rightarrow> expr list" where
  "remove_empty_and_concats es =
     (let has_concat = (\<exists>e \<in> set es. is_concat e \<noteq> None);
          es1 = filter (\<lambda>e. \<not> is_empty e) es
      in if has_concat then concat (map get_concat es1) else es1)"

text \<open>
  The weight of a vector: one for each term and one for each character of a string
  literal. Every round of \<^verbatim>\<open>reduce_back\<close> and \<^verbatim>\<open>reduce_front\<close> lowers the weight of
  the two vectors.
\<close>

definition term_weight :: "expr \<Rightarrow> nat" where
  "term_weight e = (case is_string e of Some s \<Rightarrow> 1 + length s | None \<Rightarrow> 1)"

definition vec_weight :: "expr list \<Rightarrow> nat" where
  "vec_weight es = sum_list (map term_weight es)"

lemma term_weight_mk_string [simp]: "term_weight (mk_string s) = 1 + length s"
  by (simp add: term_weight_def mk_string_def is_string_def)

lemma term_weight_string: "is_string e = Some s \<Longrightarrow> term_weight e = 1 + length s"
  by (simp add: term_weight_def)

lemma is_string_inj: "is_string l = Some s \<Longrightarrow> is_string r = Some s \<Longrightarrow> l = r"
  by (cases l; cases r) (auto simp: is_string_def split: decl.splits if_splits)

lemma term_weight_pos [simp]: "0 < term_weight e"
  by (simp add: term_weight_def split: option.splits)

lemma vec_weight_simps [simp]:
  "vec_weight [] = 0"
  "vec_weight (e # es) = term_weight e + vec_weight es"
  "vec_weight (es @ fs) = vec_weight es + vec_weight fs"
  by (simp_all add: vec_weight_def)

text \<open>
  One round of the loop of \<^verbatim>\<open>reduce_back\<close> on the last terms \<open>l\<close> and \<open>r\<close> of the two
  vectors: \<open>Break\<close> leaves the loop, \<open>Clash\<close> returns \<open>false\<close>, \<open>Continue\<close> pops both
  terms, pushes what is left of them and records the new equations. \<open>Assert_failed\<close> is
  the unit against the empty string literal, which the source asserts away before it
  reads the last character of the literal.
\<close>

datatype round = Break | Clash | Assert_failed | Continue "expr list" "expr list" expr_pairs

definition reduce_back_round :: "manager \<Rightarrow> expr \<Rightarrow> expr \<Rightarrow> round" where
  "reduce_back_round M l r =
     (if l = r then Continue [] [] []
      else (case (is_unit_seq l, is_unit_seq r) of
        (Some a, Some b) \<Rightarrow>
          if m_are_distinct M a b then Clash else Continue [] [] [(a, b)]
      | _ \<Rightarrow>
      (case (is_unit_seq l, is_string r) of
        (Some a, Some s) \<Rightarrow>
          if s = [] then Assert_failed
          else Continue [] (if length s = 1 then [] else [mk_string (butlast s)])
                 [(mk_char (last s), a)]
      | _ \<Rightarrow>
      (case (is_string l, is_string r) of
        (Some s1, Some s2) \<Rightarrow>
          (let min_l = min (length s1) (length s2) in
           if \<exists>i < min_l. s1 ! (length s1 - i - 1) \<noteq> s2 ! (length s2 - i - 1) then Clash
           else Continue
                  (if min_l < length s1 then [mk_string (take (length s1 - min_l) s1)] else [])
                  (if min_l < length s2 then [mk_string (take (length s2 - min_l) s2)] else [])
                  [])
      | _ \<Rightarrow> Break))))"

lemma reduce_back_round_weight:
  assumes "reduce_back_round M l r = Continue pl pr ne"
  shows "vec_weight pl + vec_weight pr < term_weight l + term_weight r"
proof (cases "l = r")
  case True
  with assms show ?thesis by (simp add: reduce_back_round_def)
next
  case False
  show ?thesis
  proof (cases "is_unit_seq l")
    case (Some a)
    show ?thesis
    proof (cases "is_unit_seq r")
      case (Some b)
      with assms False \<open>is_unit_seq l = Some a\<close> show ?thesis
        by (auto simp: reduce_back_round_def split: if_splits)
    next
      case None
      with assms False \<open>is_unit_seq l = Some a\<close> show ?thesis
        by (cases "is_string l"; cases "is_string r")
           (auto simp: reduce_back_round_def term_weight_string Let_def split: if_splits)
    qed
  next
    case None
    show ?thesis
    proof (cases "is_string l")
      case n: None
      with assms False None show ?thesis
        by (cases "is_unit_seq r") (auto simp: reduce_back_round_def)
    next
      case (Some s1)
      show ?thesis
      proof (cases "is_string r")
        case n: None
        with assms False None Some show ?thesis
          by (cases "is_unit_seq r") (auto simp: reduce_back_round_def)
      next
        case s2: (Some s2)
        from False Some s2 have ne: "s1 \<noteq> s2"
          by (auto dest: is_string_inj)
        from assms False None Some s2 ne show ?thesis
          by (cases "is_unit_seq r"; cases "s1 = []"; cases "s2 = []")
             (auto simp: reduce_back_round_def term_weight_string Let_def min_def
                split: if_splits)
      qed
    qed
  qed
qed

text \<open>
  \<^verbatim>\<open>reduce_back\<close> works at the back of the two vectors: the loop is written on the
  reversed vectors, the head of a list being the back of the vector. The characters of a
  string literal stay in their order. When the last term of \<open>rs\<close> is a unit and the last
  term of \<open>ls\<close> a string literal, the two vectors change places.
\<close>

function reduce_back_loop ::
  "manager \<Rightarrow> expr list \<Rightarrow> expr list \<Rightarrow> expr_pairs \<Rightarrow> eq_state answer" where
  "reduce_back_loop M [] rs eqs = Yes ([], rs, eqs)"
| "reduce_back_loop M (l0 # ls0) [] eqs = Yes (l0 # ls0, [], eqs)"
| "reduce_back_loop M (l0 # ls0) (r0 # rs0) eqs =
     (if is_unit_seq r0 \<noteq> None \<and> is_string l0 \<noteq> None
      then (case reduce_back_round M r0 l0 of
              Break \<Rightarrow> Yes (r0 # rs0, l0 # ls0, eqs)
            | Clash \<Rightarrow> No
            | Assert_failed \<Rightarrow> Stuck
            | Continue pl pr ne \<Rightarrow> reduce_back_loop M (pl @ rs0) (pr @ ls0) (eqs @ ne))
      else (case reduce_back_round M l0 r0 of
              Break \<Rightarrow> Yes (l0 # ls0, r0 # rs0, eqs)
            | Clash \<Rightarrow> No
            | Assert_failed \<Rightarrow> Stuck
            | Continue pl pr ne \<Rightarrow> reduce_back_loop M (pl @ ls0) (pr @ rs0) (eqs @ ne)))"
  by pat_completeness auto
termination
  by (relation "measure (\<lambda>(M, ls, rs, eqs). vec_weight ls + vec_weight rs)")
     (auto dest!: reduce_back_round_weight)

declare reduce_back_loop.simps [simp del]

definition reduce_back ::
  "manager \<Rightarrow> expr list \<Rightarrow> expr list \<Rightarrow> expr_pairs \<Rightarrow> eq_state answer" where
  "reduce_back M ls rs new_eqs =
     (case reduce_back_loop M (rev ls) (rev rs) new_eqs of
        Yes (ls', rs', eqs') \<Rightarrow> Yes (rev ls', rev rs', eqs')
      | No \<Rightarrow> No
      | Stuck \<Rightarrow> Stuck)"

text \<open>
  \<^verbatim>\<open>reduce_front\<close>: the same round at the front of the vectors. The lists of the loop
  are the vectors from the positions \<^verbatim>\<open>head1\<close> and \<^verbatim>\<open>head2\<close> on, which
  \<^verbatim>\<open>remove_leading\<close> leaves in the end.
\<close>

definition reduce_front_round :: "manager \<Rightarrow> expr \<Rightarrow> expr \<Rightarrow> round" where
  "reduce_front_round M l r =
     (if l = r then Continue [] [] []
      else (case (is_unit_seq l, is_unit_seq r) of
        (Some a, Some b) \<Rightarrow>
          if m_are_distinct M a b then Clash else Continue [] [] [(a, b)]
      | _ \<Rightarrow>
      (case (is_unit_seq l, is_string r) of
        (Some a, Some s) \<Rightarrow>
          if s = [] then Assert_failed
          else Continue [] (if length s = 1 then [] else [mk_string (drop 1 s)])
                 [(mk_char (s ! 0), a)]
      | _ \<Rightarrow>
      (case (is_string l, is_string r) of
        (Some s1, Some s2) \<Rightarrow>
          (let min_l = min (length s1) (length s2) in
           if \<exists>i < min_l. s1 ! i \<noteq> s2 ! i then Clash
           else Continue
                  (if min_l = length s1 then [] else [mk_string (drop min_l s1)])
                  (if min_l = length s2 then [] else [mk_string (drop min_l s2)])
                  [])
      | _ \<Rightarrow> Break))))"

lemma reduce_front_round_weight:
  assumes "reduce_front_round M l r = Continue pl pr ne"
  shows "vec_weight pl + vec_weight pr < term_weight l + term_weight r"
proof (cases "l = r")
  case True
  with assms show ?thesis by (simp add: reduce_front_round_def)
next
  case False
  show ?thesis
  proof (cases "is_unit_seq l")
    case (Some a)
    show ?thesis
    proof (cases "is_unit_seq r")
      case (Some b)
      with assms False \<open>is_unit_seq l = Some a\<close> show ?thesis
        by (auto simp: reduce_front_round_def split: if_splits)
    next
      case None
      with assms False \<open>is_unit_seq l = Some a\<close> show ?thesis
        by (cases "is_string l"; cases "is_string r")
           (auto simp: reduce_front_round_def term_weight_string Let_def split: if_splits)
    qed
  next
    case None
    show ?thesis
    proof (cases "is_string l")
      case n: None
      with assms False None show ?thesis
        by (cases "is_unit_seq r") (auto simp: reduce_front_round_def)
    next
      case (Some s1)
      show ?thesis
      proof (cases "is_string r")
        case n: None
        with assms False None Some show ?thesis
          by (cases "is_unit_seq r") (auto simp: reduce_front_round_def)
      next
        case s2: (Some s2)
        from False Some s2 have ne: "s1 \<noteq> s2"
          by (auto dest: is_string_inj)
        from assms False None Some s2 ne show ?thesis
          by (cases "is_unit_seq r"; cases "s1 = []"; cases "s2 = []")
             (auto simp: reduce_front_round_def term_weight_string Let_def min_def
                split: if_splits)
      qed
    qed
  qed
qed

function reduce_front ::
  "manager \<Rightarrow> expr list \<Rightarrow> expr list \<Rightarrow> expr_pairs \<Rightarrow> eq_state answer" where
  "reduce_front M [] rs eqs = Yes ([], rs, eqs)"
| "reduce_front M (l0 # ls0) [] eqs = Yes (l0 # ls0, [], eqs)"
| "reduce_front M (l0 # ls0) (r0 # rs0) eqs =
     (if is_unit_seq r0 \<noteq> None \<and> is_string l0 \<noteq> None
      then (case reduce_front_round M r0 l0 of
              Break \<Rightarrow> Yes (r0 # rs0, l0 # ls0, eqs)
            | Clash \<Rightarrow> No
            | Assert_failed \<Rightarrow> Stuck
            | Continue pl pr ne \<Rightarrow> reduce_front M (pl @ rs0) (pr @ ls0) (eqs @ ne))
      else (case reduce_front_round M l0 r0 of
              Break \<Rightarrow> Yes (l0 # ls0, r0 # rs0, eqs)
            | Clash \<Rightarrow> No
            | Assert_failed \<Rightarrow> Stuck
            | Continue pl pr ne \<Rightarrow> reduce_front M (pl @ ls0) (pr @ rs0) (eqs @ ne)))"
  by pat_completeness auto
termination
  by (relation "measure (\<lambda>(M, ls, rs, eqs). vec_weight ls + vec_weight rs)")
     (auto dest!: reduce_front_round_weight)

declare reduce_front.simps [simp del]

text \<open>
  \<^verbatim>\<open>is_string(n, es, s)\<close>: the string that string literals and units of character
  constants spell, when the vector holds nothing else.
\<close>

fun is_string_es :: "expr list \<Rightarrow> zstring option" where
  "is_string_es [] = Some []"
| "is_string_es (e # es) =
     (case is_string e of
        Some s1 \<Rightarrow> map_option (\<lambda>s. s1 @ s) (is_string_es es)
      | None \<Rightarrow>
         (case is_unit_seq e of
            Some c \<Rightarrow>
              (case is_const_char c of
                 Some ch \<Rightarrow> map_option (\<lambda>s. ch # s) (is_string_es es)
               | None \<Rightarrow> None)
          | None \<Rightarrow> None))"

text \<open>
  \<^verbatim>\<open>reduce_itos\<close>: \<open>itos(n)\<close> against a numeric string. The rational read from the
  encoded string prints back as the string exactly when the string is a decimal numeral
  with no leading zero.
\<close>

definition reduce_itos :: "expr list \<Rightarrow> expr list \<Rightarrow> expr_pairs \<Rightarrow> eq_state answer" where
  "reduce_itos ls rs eqs =
     (case (case ls of
              [l] \<Rightarrow>
                (case is_itos l of
                   Some n \<Rightarrow> map_option (\<lambda>s. (n, s)) (is_string_es rs)
                 | None \<Rightarrow> None)
            | _ \<Rightarrow> None) of
        Some (n, s) \<Rightarrow>
          (let s1 = encode s in
           if \<exists>c \<in> set s1. \<not> is_digit c then No
           else if length s1 > 1 \<and> s1 ! 0 = 48 then No
           else (let r = parse_decimal s1 in
                 if s1 = to_decimal (nat r) then Yes ([], [], eqs @ [(n, mk_int r)])
                 else Yes (ls, rs, eqs)))
      | None \<Rightarrow> Yes (ls, rs, eqs))"

text \<open>
  \<^verbatim>\<open>reduce_value_clash\<close>. The lambda \<^verbatim>\<open>remove\<close> overwrites the first occurrence of
  the term with the last term of the buffer and drops the last position.
\<close>

definition remove_elem :: "expr \<Rightarrow> expr list \<Rightarrow> expr list option" where
  "remove_elem r es =
     (if r \<in> set es
      then Some (butlast (es[length (takeWhile (\<lambda>e. e \<noteq> r) es) := last es]))
      else None)"

definition is_unit_value :: "manager \<Rightarrow> expr \<Rightarrow> bool" where
  "is_unit_value M r = (m_is_value M r \<and> is_unit_seq r \<noteq> None)"

fun value_clash_loop :: "manager \<Rightarrow> expr list \<Rightarrow> expr list \<Rightarrow> expr list option" where
  "value_clash_loop M [] es = Some es"
| "value_clash_loop M (r # rs) es =
     (case remove_elem r es of
        Some es' \<Rightarrow> value_clash_loop M rs es'
      | None \<Rightarrow> if \<not> is_unit_value M r then None else value_clash_loop M rs es)"

definition reduce_value_clash :: "manager \<Rightarrow> expr list \<Rightarrow> expr list \<Rightarrow> bool" where
  "reduce_value_clash M ls rs =
     (if ls = [] \<or> rs = [] then True
      else (case value_clash_loop M rs ls of
              None \<Rightarrow> True
            | Some es \<Rightarrow>
                if es = [] then True
                else if \<exists>e \<in> set es. \<not> is_unit_value M e then True
                else False))"

text \<open>
  \<^verbatim>\<open>has_var\<close>, \<^verbatim>\<open>set_empty\<close>, \<^verbatim>\<open>concat_non_empty\<close> and \<^verbatim>\<open>reduce_by_length\<close>.
  \<^verbatim>\<open>min_length\<close> answers \<open>None\<close> in the model where the source would read an entry
  that is missing from its cache; the answer is passed on as \<open>Stuck\<close>.
\<close>

fun has_var :: "expr list \<Rightarrow> bool option" where
  "has_var [] = Some False"
| "has_var (e # es) =
     (case min_length e of
        None \<Rightarrow> None
      | Some (bounded, len) \<Rightarrow> if len = 0 then Some True else has_var es)"

fun set_empty :: "expr list \<Rightarrow> bool \<Rightarrow> expr_pairs \<Rightarrow> expr_pairs answer" where
  "set_empty [] all eqs = Yes eqs"
| "set_empty (e # es) all eqs =
     (case min_length e of
        None \<Rightarrow> Stuck
      | Some (bounded, len) \<Rightarrow>
          if len > 0 then (if all then No else set_empty es all eqs)
          else if bounded \<and> len = 0 then set_empty es all eqs
          else set_empty es all (eqs @ [(mk_empty, e)]))"

definition concat_non_empty :: "expr list \<Rightarrow> expr" where
  "concat_non_empty es =
     mk_concat_n (filter (\<lambda>e. is_unit_seq e \<noteq> None \<or> is_string e \<noteq> None \<or> is_ite e \<noteq> None) es)"

definition reduce_by_length :: "expr list \<Rightarrow> expr list \<Rightarrow> expr_pairs \<Rightarrow> eq_state answer" where
  "reduce_by_length ls rs eqs =
     (if ls = [] \<and> rs = [] then Yes (ls, rs, eqs)
      else (case (min_length_vec ls, min_length_vec rs) of
        (Some (bounded1, len1), Some (bounded2, len2)) \<Rightarrow>
          if bounded1 \<and> len1 < len2 then No
          else if bounded2 \<and> len2 < len1 then No
          else (case (if bounded1 \<and> len1 = len2 \<and> len1 > 0 then has_var rs else Some False) of
            None \<Rightarrow> Stuck
          | Some True \<Rightarrow>
              (case set_empty rs False eqs of
                 Yes eqs' \<Rightarrow>
                   Yes ([], [], eqs' @ [(concat_non_empty ls, concat_non_empty rs)])
               | No \<Rightarrow> No
               | Stuck \<Rightarrow> Stuck)
          | Some False \<Rightarrow>
          (case (if bounded2 \<and> len1 = len2 \<and> len1 > 0 then has_var ls else Some False) of
            None \<Rightarrow> Stuck
          | Some True \<Rightarrow>
              (case set_empty ls False eqs of
                 Yes eqs' \<Rightarrow>
                   Yes ([], [], eqs' @ [(concat_non_empty ls, concat_non_empty rs)])
               | No \<Rightarrow> No
               | Stuck \<Rightarrow> Stuck)
          | Some False \<Rightarrow> Yes (ls, rs, eqs)))
      | _ \<Rightarrow> Stuck))"

text \<open>
  \<^verbatim>\<open>reduce_subsequence\<close>. The first loop gives every term of the shorter vector a
  position of its own in the longer one, holding the same term or, for a unit, a unit;
  \<open>rpos\<close> is the set of the positions taken. The second loop keeps the terms at these
  positions and sets the others to the empty sequence.
\<close>

fun find_match :: "expr \<Rightarrow> expr list \<Rightarrow> nat set \<Rightarrow> nat \<Rightarrow> nat option" where
  "find_match x [] rpos j = None"
| "find_match x (y # ys) rpos j =
     (if j \<notin> rpos \<and> (x = y \<or> (is_unit_seq x \<noteq> None \<and> is_unit_seq y \<noteq> None)) then Some j
      else find_match x ys rpos (j + 1))"

fun match_all :: "expr list \<Rightarrow> expr list \<Rightarrow> nat set \<Rightarrow> nat set option" where
  "match_all [] rs rpos = Some rpos"
| "match_all (x # xs) rs rpos =
     (case find_match x rs rpos 0 of
        Some j \<Rightarrow> match_all xs rs (insert j rpos)
      | None \<Rightarrow> None)"

fun keep_matched ::
  "expr list \<Rightarrow> nat \<Rightarrow> nat set \<Rightarrow> expr_pairs \<Rightarrow> (expr list \<times> expr_pairs) answer" where
  "keep_matched [] i rpos eqs = Yes ([], eqs)"
| "keep_matched (y # ys) i rpos eqs =
     (if i \<in> rpos then
        (case keep_matched ys (i + 1) rpos eqs of
           Yes (kept, eqs') \<Rightarrow> Yes (y # kept, eqs')
         | No \<Rightarrow> No
         | Stuck \<Rightarrow> Stuck)
      else
        (case set_empty [y] True eqs of
           Yes eqs' \<Rightarrow> keep_matched ys (i + 1) rpos eqs'
         | No \<Rightarrow> No
         | Stuck \<Rightarrow> Stuck))"

definition reduce_subsequence :: "expr list \<Rightarrow> expr list \<Rightarrow> expr_pairs \<Rightarrow> eq_state answer"
  where
  "reduce_subsequence ls0 rs0 eqs =
     (let ls = (if length ls0 > length rs0 then rs0 else ls0);
          rs = (if length ls0 > length rs0 then ls0 else rs0)
      in if length ls = length rs then Yes (ls, rs, eqs)
         else if ls = [] \<and> length rs = 1 then Yes (ls, rs, eqs)
         else (case match_all ls rs {} of
           None \<Rightarrow> Yes (ls, rs, eqs)
         | Some rpos \<Rightarrow>
             (case keep_matched rs 0 rpos eqs of
                Stuck \<Rightarrow> Stuck
              | No \<Rightarrow> No
              | Yes (kept, eqs') \<Rightarrow>
                  if length kept = length rs then Yes (ls, rs, eqs')
                  else if ls \<noteq> [] then
                    Yes ([], [], eqs' @ [(mk_concat_n ls, mk_concat_n kept)])
                  else Yes (ls, kept, eqs'))))"

text \<open>
  \<^verbatim>\<open>non_overlap\<close> on strings and on vectors of terms, and \<^verbatim>\<open>reduce_non_overlap\<close>.
  The lambda \<^verbatim>\<open>can_overlap(start1, end1, start2)\<close> compares position \<open>i\<close> of the
  first sequence with position \<open>start2 + i\<close> of the second, for \<open>i\<close> from \<open>start1\<close> up to
  \<open>end1\<close>.
\<close>

definition can_overlap_str :: "zstring \<Rightarrow> zstring \<Rightarrow> nat \<Rightarrow> nat \<Rightarrow> nat \<Rightarrow> bool" where
  "can_overlap_str s1 s2 start1 end1 start2 =
     (\<forall>i \<in> set [start1..<end1]. s1 ! i = s2 ! (start2 + i))"

definition non_overlap_sorted_str :: "zstring \<Rightarrow> zstring \<Rightarrow> bool" where
  "non_overlap_sorted_str s1 s2 =
     (let sz1 = length s1; sz2 = length s2
      in if \<exists>i \<in> set [1..<sz1]. can_overlap_str s1 s2 i sz1 0 then False
         else if \<exists>j \<in> set [0..<sz2 - sz1]. can_overlap_str s1 s2 0 sz1 j then False
         else if \<exists>j \<in> set [sz2 - sz1..<sz2]. can_overlap_str s1 s2 0 (sz2 - j) j then False
         else True)"

definition non_overlap_str :: "zstring \<Rightarrow> zstring \<Rightarrow> bool" where
  "non_overlap_str s1 s2 =
     (if length s1 > length s2 then non_overlap_sorted_str s2 s1
      else non_overlap_sorted_str s1 s2)"

fun can_overlap_scan :: "manager \<Rightarrow> (expr \<times> expr) list \<Rightarrow> bool" where
  "can_overlap_scan M [] = True"
| "can_overlap_scan M ((a, b) # ps) =
     (if m_are_distinct M a b then False
      else if \<not> m_are_equal M a b then True
      else can_overlap_scan M ps)"

definition can_overlap :: "manager \<Rightarrow> expr list \<Rightarrow> expr list \<Rightarrow> nat \<Rightarrow> nat \<Rightarrow> nat \<Rightarrow> bool"
  where
  "can_overlap M p1 p2 start1 end1 start2 =
     can_overlap_scan M (map (\<lambda>i. (p1 ! i, p2 ! (start2 + i))) [start1..<end1])"

definition non_overlap_sorted :: "manager \<Rightarrow> expr list \<Rightarrow> expr list \<Rightarrow> bool" where
  "non_overlap_sorted M p1 p2 =
     (let sz1 = length p1; sz2 = length p2
      in if sz1 = 0 \<or> sz2 = 0 then False
         else (case (if sz1 = 1 \<and> sz2 = 1 then
                       (case (is_string (p1 ! 0), is_string (p2 ! 0)) of
                          (Some s1, Some s2) \<Rightarrow> Some (s1, s2)
                        | _ \<Rightarrow> None)
                     else None) of
           Some (s1, s2) \<Rightarrow> non_overlap_str s1 s2
         | None \<Rightarrow>
             if \<exists>e \<in> set p1. is_unit_seq e = None then False
             else if \<exists>e \<in> set p2. is_unit_seq e = None then False
             else if \<exists>i \<in> set [1..<sz1]. can_overlap M p1 p2 i sz1 0 then False
             else if \<exists>j \<in> set [0..<sz2 - sz1]. can_overlap M p1 p2 0 sz1 j then False
             else if \<exists>j \<in> set [sz2 - sz1..<sz2]. can_overlap M p1 p2 0 (sz2 - j) j
               then False
             else True))"

definition non_overlap :: "manager \<Rightarrow> expr list \<Rightarrow> expr list \<Rightarrow> bool" where
  "non_overlap M p1 p2 =
     (if length p1 > length p2 then non_overlap_sorted M p2 p1
      else non_overlap_sorted M p1 p2)"

fun non_overlap_scan :: "manager \<Rightarrow> expr list \<Rightarrow> expr list \<Rightarrow> expr list \<Rightarrow> bool" where
  "non_overlap_scan M [] pattern rs = (\<not> (pattern \<noteq> [] \<and> non_overlap M pattern rs))"
| "non_overlap_scan M (x # xs) pattern rs =
     (if is_unit_seq x \<noteq> None then non_overlap_scan M xs (pattern @ [x]) rs
      else if pattern \<noteq> [] then
        (if non_overlap M pattern rs then False else non_overlap_scan M xs [] rs)
      else non_overlap_scan M xs pattern rs)"

definition reduce_non_overlap :: "manager \<Rightarrow> expr list \<Rightarrow> expr list \<Rightarrow> bool" where
  "reduce_non_overlap M ls rs =
     (if \<exists>u \<in> set rs. is_unit_seq u = None then True
      else non_overlap_scan M ls [] rs)"

text \<open>
  \<^verbatim>\<open>reduce_eq\<close> on two vectors: the stages in the order of the source, each one run
  only when the stages before it returned \<open>true\<close>. The last component of the answer is
  the flag \<^verbatim>\<open>change\<close>.
\<close>

fun and_then :: "'a answer \<Rightarrow> ('a \<Rightarrow> 'b answer) \<Rightarrow> 'b answer" where
  "and_then Stuck f = Stuck"
| "and_then No f = No"
| "and_then (Yes x) f = f x"

definition reduce_eq ::
  "manager \<Rightarrow> expr list \<Rightarrow> expr list \<Rightarrow> expr_pairs
     \<Rightarrow> (expr list \<times> expr list \<times> expr_pairs \<times> bool) answer" where
  "reduce_eq M ls0 rs0 eqs0 =
     and_then (reduce_back M (remove_empty_and_concats ls0) (remove_empty_and_concats rs0) eqs0)
       (\<lambda>(ls1, rs1, eqs1).
     and_then (reduce_front M ls1 rs1 eqs1) (\<lambda>(ls2, rs2, eqs2).
     and_then (reduce_itos ls2 rs2 eqs2) (\<lambda>(ls3, rs3, eqs3).
     and_then (reduce_itos rs3 ls3 eqs3) (\<lambda>(rs4, ls4, eqs4).
     if \<not> reduce_value_clash M ls4 rs4 then No
     else and_then (reduce_by_length ls4 rs4 eqs4) (\<lambda>(ls5, rs5, eqs5).
     and_then (reduce_subsequence ls5 rs5 eqs5) (\<lambda>(ls6, rs6, eqs6).
     if \<not> reduce_non_overlap M ls6 rs6 then No
     else if \<not> reduce_non_overlap M rs6 ls6 then No
     else Yes (ls6, rs6, eqs6,
               m_hash M ls0 \<noteq> m_hash M ls6 \<or> m_hash M rs0 \<noteq> m_hash M rs6
                 \<or> length eqs6 \<noteq> length eqs0)))))))"

section \<open>Properties\<close>

lemma is_numeral_mk_int [simp]: "is_numeral (mk_int r) = Some r"
  by (simp add: is_numeral_def mk_int_def)

lemma is_string_mk_string [simp]: "is_string (mk_string s) = Some s"
  by (simp add: is_string_def mk_string_def)

lemma is_empty_mk_string [simp]: "is_empty (mk_string s) = (s = [])"
  by (simp add: is_empty_def is_app_of_def is_string_def mk_string_def)

lemma is_empty_mk_empty [simp]: "is_empty mk_empty"
  by (simp add: is_empty_def is_app_of_def mk_empty_def)

text \<open>
  C7. \<^verbatim>\<open>from_code\<close> of an integer numeral outside \<open>[0, MAX_CHAR]\<close> rewrites to the
  empty string literal, with status done and no failure; inside the range it rewrites to
  the string of the one character with that code.
\<close>

theorem from_code_numeral:
  "(r < 0 \<or> r > int max_char \<longrightarrow>
      mk_str_from_code max_char (mk_int r) = BR_DONE (mk_string []))
   \<and> (0 \<le> r \<and> r \<le> int max_char \<longrightarrow>
      mk_str_from_code max_char (mk_int r) = BR_DONE (mk_string [nat r]))"
  by (auto simp: mk_str_from_code_def)

theorem from_code_numeral_witness:
  "mk_str_from_code 196607 (mk_int (- 1)) = BR_DONE (mk_string [])
   \<and> mk_str_from_code 196607 (mk_int 196608) = BR_DONE (mk_string [])
   \<and> mk_str_from_code 196607 (mk_int 97) = BR_DONE (mk_string [97])"
  using from_code_numeral [of "- 1" 196607] from_code_numeral [of 196608 196607]
    from_code_numeral [of 97 196607]
  by simp

text \<open>
  C9. \<^verbatim>\<open>to_code\<close> of a string literal is the code of its character when the literal
  has exactly one character and \<open>-1\<close> for every other length; an argument that is not a
  string literal is not rewritten.
\<close>

theorem to_code_literal:
  "(length s = 1 \<longrightarrow> mk_str_to_code (mk_string s) = BR_DONE (mk_int (int (hd s))))
   \<and> (length s \<noteq> 1 \<longrightarrow> mk_str_to_code (mk_string s) = BR_DONE (mk_int (- 1)))
   \<and> (is_string a = None \<longrightarrow> mk_str_to_code a = BR_FAILED)"
  by (cases s) (auto simp: mk_str_to_code_def minus_one_def)

theorem to_code_literal_witness:
  "mk_str_to_code (mk_string [97]) = BR_DONE (mk_int 97)
   \<and> mk_str_to_code (mk_string []) = BR_DONE (mk_int (- 1))
   \<and> mk_str_to_code (mk_string [97, 98]) = BR_DONE (mk_int (- 1))
   \<and> mk_str_to_code (mk_var ''x'') = BR_FAILED"
  using to_code_literal [of "[97]" "mk_var ''x''"] to_code_literal [of "[]" "mk_var ''x''"]
    to_code_literal [of "[97, 98]" "mk_var ''x''"]
  by (simp add: is_string_def mk_var_def)

text \<open>
  C10, as the claim states it for the left-empty case, fails when the right argument is
  empty too: the first test of \<^verbatim>\<open>mk_str_lt\<close> answers \<open>false\<close> before the second
  is reached.
\<close>

theorem str_lt_empty_empty_counterexample:
  "mk_str_lt (mk_string []) mk_empty = BR_DONE mk_false
   \<and> mk_false \<noteq> mk_not (mk_eq (mk_string []) mk_empty)"
  by (simp add: mk_str_lt_def mk_false_def mk_not_def)

text \<open>
  C10 (amended). Comparing any term with an empty right argument (the empty string
  literal or the empty sequence) rewrites to \<open>false\<close>, whether or not the left argument
  is a constant; comparing the empty string with a right argument that is not empty
  rewrites to the negation of the equality of the two.
\<close>

theorem str_lt_empty:
  "mk_str_lt x (mk_string []) = BR_DONE mk_false
   \<and> mk_str_lt x mk_empty = BR_DONE mk_false
   \<and> (\<not> is_empty y \<longrightarrow>
        mk_str_lt (mk_string []) y = BR_REWRITE1 (mk_not (mk_eq (mk_string []) y)))"
  by (simp add: mk_str_lt_def)

theorem str_lt_empty_witness:
  "mk_str_lt (mk_var ''x'') (mk_string []) = BR_DONE mk_false
   \<and> mk_str_lt (mk_var ''x'') mk_empty = BR_DONE mk_false
   \<and> \<not> is_empty (mk_var ''y'')
   \<and> mk_str_lt (mk_string []) (mk_var ''y'')
       = BR_REWRITE1 (mk_not (mk_eq (mk_string []) (mk_var ''y'')))"
  using str_lt_empty [of "mk_var ''x''" "mk_var ''y''"]
  by (simp add: is_empty_def is_app_of_def is_string_def mk_var_def)

subsection \<open>The operation cache\<close>

lemma find_same_key_cons:
  "List.find (same_key e) (e' # t) = (if same_key e e' then Some e' else List.find (same_key e) t)"
  by simp

lemma length_table_insert: "length (table_insert e t) \<le> Suc (length t)"
  by (simp add: table_insert_def le_SucI)

text \<open>
  C8. When the table holds at least \<open>m_max_cache_size\<close> entries, \<^verbatim>\<open>insert\<close> clears the
  whole table and the whole trail before it adds the new entry, so that afterwards the
  table holds the new entry alone and the trail the non-null terms of that entry alone.
  After every insert the key \<open>(op, a, b, c)\<close> is found with the result \<open>r\<close>, and (the cap
  being positive) the table holds at most \<open>m_max_cache_size\<close> entries.
\<close>

theorem op_cache_insert_reset:
  "(length (m_table ch) \<ge> mx \<longrightarrow>
      m_table (cache_insert mx op x y z res ch) = [\<lparr>e_k = op, e_a = x, e_b = y, e_c = z, e_r = res\<rparr>]
      \<and> m_trail (cache_insert mx op x y z res ch)
          = push_back_opt res (push_back_opt z (push_back_opt y (push_back_opt x []))))
   \<and> cache_find op x y z (cache_insert mx op x y z res ch) = res
   \<and> (0 < mx \<longrightarrow> length (m_table (cache_insert mx op x y z res ch)) \<le> mx)"
proof -
  let ?e = "\<lparr>e_k = op, e_a = x, e_b = y, e_c = z, e_r = res\<rparr>"
  have full: "length (m_table ch) \<ge> mx \<Longrightarrow>
      m_table (cache_insert mx op x y z res ch) = [?e]
      \<and> m_trail (cache_insert mx op x y z res ch)
          = push_back_opt res (push_back_opt z (push_back_opt y (push_back_opt x [])))"
    by (simp add: cache_insert_def cleanup_def table_insert_def Let_def)
  have found: "cache_find op x y z (cache_insert mx op x y z res ch) = res"
    by (simp add: cache_find_def cache_insert_def table_find_def table_insert_def
        same_key_def Let_def)
  have bound: "length (m_table (cache_insert mx op x y z res ch)) \<le> mx" if "0 < mx"
  proof (cases "length (m_table ch) \<ge> mx")
    case True
    with full that show ?thesis by simp
  next
    case False
    then have "m_table (cache_insert mx op x y z res ch) = table_insert ?e (m_table ch)"
      by (simp add: cache_insert_def cleanup_def Let_def)
    with False length_table_insert [of ?e "m_table ch"] show ?thesis by simp
  qed
  from full found bound show ?thesis by blast
qed

theorem op_cache_insert_reset_witness:
  "m_table (cache_insert 1 OP_RE_DERIVATIVE (Some (mk_char 97)) (Some (mk_var ''r'')) None
      (Some (mk_var ''d''))
      \<lparr>m_table = [\<lparr>e_k = OP_RE_UNION, e_a = None, e_b = None, e_c = None, e_r = None\<rparr>],
       m_trail = [mk_var ''t'']\<rparr>)
     = [\<lparr>e_k = OP_RE_DERIVATIVE, e_a = Some (mk_char 97), e_b = Some (mk_var ''r''), e_c = None,
         e_r = Some (mk_var ''d'')\<rparr>]
   \<and> m_trail (cache_insert 1 OP_RE_DERIVATIVE (Some (mk_char 97)) (Some (mk_var ''r'')) None
      (Some (mk_var ''d''))
      \<lparr>m_table = [\<lparr>e_k = OP_RE_UNION, e_a = None, e_b = None, e_c = None, e_r = None\<rparr>],
       m_trail = [mk_var ''t'']\<rparr>)
     = [mk_char 97, mk_var ''r'', mk_var ''d'']"
  using op_cache_insert_reset [of 1
      "\<lparr>m_table = [\<lparr>e_k = OP_RE_UNION, e_a = None, e_b = None, e_c = None, e_r = None\<rparr>],
        m_trail = [mk_var ''t'']\<rparr>"
      OP_RE_DERIVATIVE "Some (mk_char 97)" "Some (mk_var ''r'')" None "Some (mk_var ''d'')"]
  by (simp add: push_back_opt_def)

subsection \<open>Soundness of the length analyzer\<close>

lemmas recog_defs = is_unit_seq_def is_unary_def is_empty_def is_app_of_def is_string_def
  is_concat_def is_binary_def is_ite_def is_ternary_def is_extract_def is_itos_def is_at_def
  is_numeral_def is_const_char_def

lemma eval_seq_unit: "is_unit_seq e = Some x \<Longrightarrow> eval_seq I e = [eval_elem I x]"
  by (subst eval_seq.simps) simp

lemma is_empty_not_unit: "is_empty e \<Longrightarrow> is_unit_seq e = None"
  by (cases e)
     (auto simp: is_empty_def is_app_of_def is_string_def is_unit_seq_def is_unary_def
        split: list.splits decl.splits if_splits)

lemma eval_seq_empty: "is_empty e \<Longrightarrow> eval_seq I e = []"
  by (subst eval_seq.simps) (simp add: is_empty_not_unit)

lemma is_string_SomeD: "is_string e = Some s \<Longrightarrow> e = App (OP_STRING_CONST s) []"
  by (cases e) (auto simp: is_string_def split: decl.splits if_splits)

lemma eval_seq_string: "is_string e = Some s \<Longrightarrow> eval_seq I e = map Ch s"
  by (drule is_string_SomeD, subst eval_seq.simps) (simp add: recog_defs)

lemma eval_seq_concat:
  "is_concat e = Some (x, y) \<Longrightarrow> eval_seq I e = eval_seq I x @ eval_seq I y"
  unfolding is_concat_def
  by (drule is_binary_SomeD, subst eval_seq.simps) (simp add: recog_defs)

lemma eval_seq_ite:
  "is_ite e = Some (c, x, y) \<Longrightarrow>
     eval_seq I e = (if bool_of I c then eval_seq I x else eval_seq I y)"
  unfolding is_ite_def
  by (drule is_ternary_SomeD, subst eval_seq.simps) (simp add: recog_defs)

lemma length_eval_seq_at: "is_at e \<Longrightarrow> length (eval_seq I e) \<le> 1"
proof -
  assume "is_at e"
  then obtain s i where "is_binary OP_SEQ_AT e = Some (s, i)"
    by (auto simp: is_at_def)
  then have e: "e = App OP_SEQ_AT [s, i]" by (rule is_binary_SomeD)
  show ?thesis
    by (subst eval_seq.simps) (simp add: e recog_defs Let_def)
qed

lemma length_eval_seq_extract:
  assumes "is_extract e = Some (s, i, l)" and "is_numeral l = Some n" and "0 \<le> n"
  shows "int (length (eval_seq I e)) \<le> n"
proof -
  from assms(1) have e: "e = App OP_SEQ_EXTRACT [s, i, l]"
    unfolding is_extract_def by (rule is_ternary_SomeD)
  have "eval_int I l = n" using assms(2) by (simp add: eval_int_def)
  then show ?thesis using assms(3)
    by (subst eval_seq.simps) (auto simp: e recog_defs Let_def min_def)
qed

definition ext_len :: "expr \<Rightarrow> int option" where
  "ext_len e = (case is_extract e of
                  Some (s1, i, l) \<Rightarrow>
                    (case is_numeral l of
                       Some n \<Rightarrow> if \<not> n < 0 then Some n else None
                     | None \<Rightarrow> None)
                | None \<Rightarrow> None)"

lemma ext_len_sound: "ext_len e = Some n \<Longrightarrow> int (length (eval_seq I e)) \<le> n"
  by (auto simp: ext_len_def split: option.splits if_splits prod.splits
      dest: length_eval_seq_extract [where I = I])

declare max_length_loop.simps [simp del]

lemma max_length_loop_sound:
  "max_length_loop es len = (True, n) \<Longrightarrow>
     len + int (sum_list (map (\<lambda>e. length (eval_seq I e)) es)) \<le> n"
proof (induction es len rule: max_length_loop.induct)
  case (1 len)
  then show ?case by (simp add: max_length_loop.simps(1))
next
  case (2 e es len)
  let ?S = "int (sum_list (map (\<lambda>e. length (eval_seq I e)) es))"
  let ?l = "int (length (eval_seq I e))"
  note step = max_length_loop.simps(2) [of e es len]
  show ?case
  proof (cases "is_unit_seq e")
    case (Some x)
    then have "max_length_loop es (len + 1) = (True, n)" using "2.prems" step by simp
    from this "2.IH" Some show ?thesis by (simp add: eval_seq_unit)
  next
    case nu: None
    show ?thesis
    proof (cases "is_at e")
      case True
      then have "max_length_loop es (len + 1) = (True, n)" using "2.prems" step nu by simp
      from this "2.IH" nu True length_eval_seq_at [OF True, of I]
      show ?thesis by simp
    next
      case na: False
      show ?thesis
      proof (cases "is_string e")
        case (Some s)
        then have "max_length_loop es (len + int (length s)) = (True, n)"
          using "2.prems" step nu na by simp
        from this "2.IH" nu na Some show ?thesis
          by (simp add: eval_seq_string)
      next
        case ns: None
        show ?thesis
        proof (cases "ext_len e")
          case (Some k)
          then have "max_length_loop es (len + k) = (True, n)"
            using "2.prems" step nu na ns by (simp add: ext_len_def)
          from this "2.IH" nu na ns Some ext_len_sound [OF Some, of I]
          show ?thesis by (simp add: ext_len_def)
        next
          case nx: None
          show ?thesis
          proof (cases "is_empty e")
            case True
            then have "max_length_loop es len = (True, n)"
              using "2.prems" step nu na ns nx by (simp add: ext_len_def)
            from this "2.IH" nu na ns nx True show ?thesis
              by (simp add: ext_len_def eval_seq_empty)
          next
            case ne: False
            show ?thesis
            proof (cases "is_concat e")
              case None
              then show ?thesis using "2.prems" step nu na ns nx ne by (simp add: ext_len_def)
            next
              case (Some p)
              obtain x y where p: "p = (x, y)" by (cases p)
              from Some p have "max_length_loop (y # x # es) len = (True, n)"
                using "2.prems" step nu na ns nx ne by (simp add: ext_len_def)
              from this "2.IH" nu na ns nx ne Some p show ?thesis
                by (fastforce simp: ext_len_def eval_seq_concat)
            qed
          qed
        qed
      qed
    qed
  qed
qed

lemma unat_plus_le: "unat (x + y :: 32 word) \<le> unat x + unat y"
  by (simp add: unat_word_ariths)

lemma unat_of_nat_le: "unat (of_nat n :: 32 word) \<le> n"
  by (simp add: unat_of_nat)

lemma unat_min_le: "unat (min x y :: 32 word) \<le> unat x \<and> unat (min x y) \<le> unat y"
  by (simp add: min_def word_le_nat_alt)

definition cache_sound :: "interp \<Rightarrow> len_cache \<Rightarrow> bool" where
  "cache_sound I C = (\<forall>e b n. C e = Some (b, n) \<longrightarrow> unat n \<le> length (eval_seq I e))"

lemma cache_sound_upd:
  "cache_sound I C \<Longrightarrow> unat (snd r) \<le> length (eval_seq I e) \<Longrightarrow> cache_sound I (C(e \<mapsto> r))"
  by (auto simp: cache_sound_def)

lemma cache_soundD: "cache_sound I C \<Longrightarrow> C e = Some r \<Longrightarrow> unat (snd r) \<le> length (eval_seq I e)"
  by (cases r) (auto simp: cache_sound_def)

lemma visit_update:
  assumes "visit e C S = (ok, C', S')"
  shows "C' = C
    \<or> (is_unit_seq e \<noteq> None \<and> C' = C(e \<mapsto> (True, 1)))
    \<or> (is_empty e \<and> C' = C(e \<mapsto> (True, 0)))
    \<or> (\<exists>s. is_string e = Some s \<and> C' = C(e \<mapsto> (True, of_nat (length s))))
    \<or> (\<exists>x y rx ry. is_concat e = Some (x, y) \<and> C x = Some rx \<and> C y = Some ry
          \<and> C' = C(e \<mapsto> (fst rx \<and> fst ry, snd rx + snd ry)))
    \<or> (\<exists>c th el r1 r2. is_ite e = Some (c, th, el) \<and> C th = Some r1 \<and> C el = Some r2
          \<and> C' = C(e \<mapsto> (fst r1 \<and> fst r2 \<and> snd r1 = snd r2, min (snd r1) (snd r2))))
    \<or> C' = C(e \<mapsto> (False, 0))"
  using assms
  by (auto simp: visit_def Let_def cache_get_def split: if_splits option.splits prod.splits)

lemma visit_sound:
  assumes "cache_sound I C" and "visit e C S = (ok, C', S')"
  shows "cache_sound I C'"
proof -
  from visit_update [OF assms(2)] consider
      (same) "C' = C"
    | (unit) "is_unit_seq e \<noteq> None" "C' = C(e \<mapsto> (True, 1))"
    | (empty) "is_empty e" "C' = C(e \<mapsto> (True, 0))"
    | (str) s where "is_string e = Some s" "C' = C(e \<mapsto> (True, of_nat (length s)))"
    | (concat) x y rx ry where "is_concat e = Some (x, y)" "C x = Some rx" "C y = Some ry"
        "C' = C(e \<mapsto> (fst rx \<and> fst ry, snd rx + snd ry))"
    | (ite) c th el r1 r2 where "is_ite e = Some (c, th, el)" "C th = Some r1" "C el = Some r2"
        "C' = C(e \<mapsto> (fst r1 \<and> fst r2 \<and> snd r1 = snd r2, min (snd r1) (snd r2)))"
    | (other) "C' = C(e \<mapsto> (False, 0))"
    by blast
  then show ?thesis
  proof cases
    case same
    with assms(1) show ?thesis by simp
  next
    case unit
    then show ?thesis using assms(1) by (auto intro!: cache_sound_upd simp: eval_seq_unit)
  next
    case empty
    then show ?thesis using assms(1) by (auto intro!: cache_sound_upd)
  next
    case (str s)
    then show ?thesis using assms(1) unat_of_nat_le [of "length s"]
      by (auto intro!: cache_sound_upd simp: eval_seq_string)
  next
    case (concat x y rx ry)
    from cache_soundD [OF assms(1) concat(2)] cache_soundD [OF assms(1) concat(3)]
      unat_plus_le [of "snd rx" "snd ry"]
    have "unat (snd rx + snd ry) \<le> length (eval_seq I e)"
      by (simp add: eval_seq_concat [OF concat(1)])
    with concat(4) assms(1) show ?thesis by (auto intro!: cache_sound_upd)
  next
    case (ite c th el r1 r2)
    from cache_soundD [OF assms(1) ite(2)] cache_soundD [OF assms(1) ite(3)]
      unat_min_le [of "snd r1" "snd r2"]
    have "unat (min (snd r1) (snd r2)) \<le> length (eval_seq I e)"
      by (simp add: eval_seq_ite [OF ite(1)])
    with ite(4) assms(1) show ?thesis by (auto intro!: cache_sound_upd)
  next
    case other
    then show ?thesis using assms(1) by (auto intro!: cache_sound_upd)
  qed
qed

declare visit_loop.simps [simp del]

lemma visit_loop_sound: "cache_sound I C \<Longrightarrow> cache_sound I (visit_loop C S)"
proof (induction C S rule: visit_loop.induct)
  case (1 cache)
  then show ?case by (simp add: visit_loop.simps(1))
next
  case (2 cache e sub)
  obtain ok cache' sub' where v: "visit e cache (e # sub) = (ok, cache', sub')"
    by (cases "visit e cache (e # sub)") auto
  from visit_sound [OF "2.prems" v] have s: "cache_sound I cache'" .
  show ?case
  proof (cases ok)
    case True
    from "2.IH"(1) [OF v [symmetric] refl True s] v True show ?thesis
      by (simp add: visit_loop.simps(2))
  next
    case False
    from "2.IH"(2) [OF v [symmetric] refl False s] v False show ?thesis
      by (simp add: visit_loop.simps(2))
  qed
qed

lemma visit_loop_dom: "dom C \<union> set S \<subseteq> dom (visit_loop C S)"
proof (induction C S rule: visit_loop.induct)
  case (1 cache)
  then show ?case by (simp add: visit_loop.simps(1))
next
  case (2 cache e sub)
  obtain ok cache' sub' where v: "visit e cache (e # sub) = (ok, cache', sub')"
    by (cases "visit e cache (e # sub)") auto
  show ?case
  proof (cases ok)
    case True
    with v visit_True [of e cache "e # sub" cache' sub']
    have s: "sub' = e # sub" and d: "dom cache' = insert e (dom cache)" by simp_all
    from "2.IH"(1) [OF v [symmetric] refl True] v True s d show ?thesis
      by (auto simp: visit_loop.simps(2))
  next
    case False
    with v visit_False [of e cache "e # sub" cache' sub']
    obtain ks where c: "cache' = cache" and s: "sub' = ks @ e # sub" by auto
    from "2.IH"(2) [OF v [symmetric] refl False] v False s c show ?thesis
      by (auto simp: visit_loop.simps(2))
  qed
qed

declare min_length_loop.simps [simp del]

lemma min_length_loop_sound:
  "cache_sound I C \<Longrightarrow>
     \<exists>b n. min_length_loop es len bnd C = Some (b, n)
       \<and> unat n \<le> unat len + sum_list (map (\<lambda>e. length (eval_seq I e)) es)"
proof (induction es len bnd C rule: min_length_loop.induct)
  case (1 len bounded cache)
  then show ?case by (simp add: min_length_loop.simps(1))
next
  case (2 e es len bounded cache)
  note step = min_length_loop.simps(2) [of e es len bounded cache]
  show ?case
  proof (cases "is_unit_seq e")
    case (Some x)
    from "2.IH"(1) [OF _ "2.prems"] Some obtain b n where
      "min_length_loop es (len + 1) bounded cache = Some (b, n)"
      "unat n \<le> unat (len + 1) + sum_list (map (\<lambda>e. length (eval_seq I e)) es)"
      by auto
    with Some step unat_plus_le [of len 1] show ?thesis
      by (auto simp: eval_seq_unit)
  next
    case nu: None
    show ?thesis
    proof (cases "is_empty e")
      case True
      from "2.IH"(2) [OF _ True "2.prems"] nu obtain b n where
        "min_length_loop es len bounded cache = Some (b, n)"
        "unat n \<le> unat len + sum_list (map (\<lambda>e. length (eval_seq I e)) es)"
        by auto
      with nu True step show ?thesis by (auto simp: eval_seq_empty)
    next
      case ne: False
      show ?thesis
      proof (cases "is_string e")
        case (Some s)
        from "2.IH"(6) [OF _ ne Some "2.prems"] nu obtain b n where
          "min_length_loop es (len + of_nat (length s)) bounded cache = Some (b, n)"
          "unat n \<le> unat (len + of_nat (length s))
                   + sum_list (map (\<lambda>e. length (eval_seq I e)) es)"
          by auto
        with nu ne Some step unat_plus_le [of len "of_nat (length s)"]
          unat_of_nat_le [of "length s"]
        show ?thesis by (auto simp: eval_seq_string)
      next
        case ns: None
        show ?thesis
        proof (cases "is_concat e")
          case (Some p)
          obtain x y where p: "p = (x, y)" by (cases p)
          from "2.IH"(5) [OF _ ne ns Some [unfolded p] refl "2.prems"] nu obtain b n where
            "min_length_loop (y # x # es) len bounded cache = Some (b, n)"
            "unat n \<le> unat len + sum_list (map (\<lambda>e. length (eval_seq I e)) (y # x # es))"
            by auto
          with nu ne ns Some p step show ?thesis
            by (auto simp: eval_seq_concat)
        next
          case nc: None
          show ?thesis
          proof (cases "is_ite e")
            case None
            from "2.IH"(3) [OF _ ne ns nc None "2.prems"] nu obtain b n where
              "min_length_loop es len False cache = Some (b, n)"
              "unat n \<le> unat len + sum_list (map (\<lambda>e. length (eval_seq I e)) es)"
              by auto
            with nu ne ns nc None step show ?thesis by auto
          next
            case (Some t)
            obtain c th el where t: "t = (c, th, el)" by (cases t)
            let ?C = "visit_loop cache [el, th]"
            have snd: "cache_sound I ?C" by (rule visit_loop_sound [OF "2.prems"])
            from visit_loop_dom [of cache "[el, th]"] obtain r1 r2 where
              r1: "?C th = Some r1" and r2: "?C el = Some r2" by auto
            obtain b1 l1 where p1: "r1 = (b1, l1)" by (cases r1)
            obtain b2 l2 where p2: "r2 = (b2, l2)" by (cases r2)
            let ?bd = "if \<not> b1 \<or> \<not> b2 \<or> l1 \<noteq> l2 then False else bounded"
            have "\<exists>b n. min_length_loop es (len + min l1 l2) ?bd ?C = Some (b, n)
                    \<and> unat n \<le> unat (len + min l1 l2)
                          + sum_list (map (\<lambda>e. length (eval_seq I e)) es)"
              by (rule "2.IH"(4) [where ?x2.0 = "(c, th, el)" and x = c and y = "(th, el)"
                    and xa = th and ya = el and xc = "Some r1" and yb = "Some r2"
                    and ?x2a.0 = r1 and ?x2b.0 = r2])
                 (use nu ne ns nc Some t r1 r2 p1 p2 snd in simp_all)
            then obtain b n where
              m: "min_length_loop es (len + min l1 l2) ?bd ?C = Some (b, n)"
              and le: "unat n \<le> unat (len + min l1 l2)
                   + sum_list (map (\<lambda>e. length (eval_seq I e)) es)"
              by auto
            from cache_soundD [OF snd r1] cache_soundD [OF snd r2] unat_min_le [of l1 l2] p1 p2
            have "unat (min l1 l2) \<le> length (eval_seq I e)"
              by (simp add: eval_seq_ite [OF Some [unfolded t]])
            with le unat_plus_le [of len "min l1 l2"]
            have "unat n \<le> unat len + sum_list (map (\<lambda>e. length (eval_seq I e)) (e # es))"
              by simp
            with m nu ne ns nc Some t r1 r2 p1 p2 step show ?thesis
              by (simp add: Let_def)
          qed
        qed
      qed
    qed
  qed
qed

text \<open>
  C5. For every sequence term and every interpretation, \<^verbatim>\<open>min_length\<close> returns, and
  the number it returns is at most the length of the sequence the term denotes; when
  \<^verbatim>\<open>max_length\<close> answers bounded, its number is at least that length.
\<close>

theorem length_analyzer_sound:
  "(\<exists>b n. min_length e = Some (b, n) \<and> unat n \<le> length (eval_seq I e))
   \<and> (fst (max_length e) \<longrightarrow> int (length (eval_seq I e)) \<le> snd (max_length e))"
proof
  have "cache_sound I Map.empty" by (simp add: cache_sound_def)
  from min_length_loop_sound [OF this, of "[e]" 0 True]
  show "\<exists>b n. min_length e = Some (b, n) \<and> unat n \<le> length (eval_seq I e)"
    by (simp add: min_length_def min_length_vec_def)
next
  show "fst (max_length e) \<longrightarrow> int (length (eval_seq I e)) \<le> snd (max_length e)"
  proof
    assume "fst (max_length e)"
    then have "max_length_loop [e] 0 = (True, snd (max_length e))"
      by (cases "max_length_loop [e] 0") (simp add: max_length_def)
    from max_length_loop_sound [OF this, of I] show "int (length (eval_seq I e)) \<le> snd (max_length e)"
      by simp
  qed
qed

lemmas mk_defs = mk_var_def mk_int_def mk_char_def mk_string_def mk_true_def mk_false_def
  mk_not_def mk_eq_def mk_ite_def mk_empty_def mk_unit_def mk_concat_def

theorem length_analyzer_sound_witness:
  "max_length (mk_concat (mk_string [97, 98]) (App OP_SEQ_AT [mk_var ''x'', mk_int 0]))
     = (True, 3)
   \<and> int (length (eval_seq
         \<lparr>seq_of = (\<lambda>_. [Ch 99, Ch 100]), int_of = (\<lambda>_. 0), bool_of = (\<lambda>_. True),
          elem_of = (\<lambda>_. Ch 0)\<rparr>
         (mk_concat (mk_string [97, 98]) (App OP_SEQ_AT [mk_var ''x'', mk_int 0])))) \<le> 3"
proof -
  have m: "max_length (mk_concat (mk_string [97, 98]) (App OP_SEQ_AT [mk_var ''x'', mk_int 0]))
     = (True, 3)"
    by (simp add: max_length_def max_length_loop.simps recog_defs mk_defs)
  with length_analyzer_sound [of
      "mk_concat (mk_string [97, 98]) (App OP_SEQ_AT [mk_var ''x'', mk_int 0])"
      "\<lparr>seq_of = (\<lambda>_. [Ch 99, Ch 100]), int_of = (\<lambda>_. 0), bool_of = (\<lambda>_. True),
        elem_of = (\<lambda>_. Ch 0)\<rparr>"]
  show ?thesis by simp
qed

text \<open>
  The analyzer on a conditional: the two branches have minimal lengths 1 and 2, so the
  answer is not bounded and the minimum 1 is added to the 2 of the literal.
\<close>

lemma min_length_ite_example:
  "min_length (mk_concat (mk_string [97, 98])
      (mk_ite (mk_var ''c'') (mk_unit (mk_var ''x'')) (mk_string [99, 100])))
   = Some (False, 3)"
  by (simp add: min_length_def min_length_vec_def min_length_loop.simps visit_loop.simps
      visit_def Let_def recog_defs mk_defs)

subsection \<open>Integers and strings\<close>

lemma is_string_mk_itos [simp]: "is_string (mk_itos x) = None"
  by (simp add: is_string_def mk_itos_def)

lemma is_itos_mk_itos [simp]: "is_itos (mk_itos x) = Some x"
  by (simp add: is_itos_def is_unary_def mk_itos_def)

text \<open>
  C6. \<^verbatim>\<open>stoi\<close> applied to a term \<open>itos(x)\<close> rewrites to \<open>ite(x \<ge> 0, x, -1)\<close> for every
  \<open>x\<close>. On constants, with the arguments rewritten first as the host does:
  \<open>stoi("07")\<close> rewrites to \<open>7\<close>; \<open>itos(-3)\<close> rewrites to \<open>""\<close> and \<open>stoi("")\<close> to
  \<open>-1\<close>; \<open>stoi("a")\<close> rewrites to \<open>-1\<close> and \<open>itos(-1)\<close> to \<open>""\<close>.
\<close>

theorem stoi_itos_round_trip:
  "mk_str_stoi (mk_itos x) = BR_DONE (mk_ite (mk_ge x zero) x minus_one)
   \<and> mk_str_stoi (mk_string [48, 55]) = BR_DONE (mk_int 7)
   \<and> mk_str_itos (mk_int (- 3)) = BR_DONE (mk_string [])
   \<and> mk_str_stoi (mk_string []) = BR_DONE (mk_int (- 1))
   \<and> mk_str_stoi (mk_string [97]) = BR_DONE (mk_int (- 1))
   \<and> mk_str_itos (mk_int (- 1)) = BR_DONE (mk_string [])"
  by (simp add: mk_str_stoi_def mk_str_itos_def minus_one_def is_digit_def parse_decimal_def)

subsection \<open>Normalised union and intersection with the regex of all non-empty words\<close>

lemmas re_recog_defs = is_to_re_def is_re_concat_def is_union_def is_intersection_def
  is_complement_def is_plus_def is_opt_def is_re_empty_def is_full_seq_def is_full_char_def
  is_epsilon_def is_dot_plus_def

lemmas re_mk_defs = mk_to_re_def mk_re_empty_def mk_full_seq_def mk_full_char_def
  mk_epsilon_def mk_re_plus_def mk_re_concat_def mk_union_def mk_inter_def mk_complement_def

lemma is_dot_plus_not_full_seq: "is_dot_plus r \<Longrightarrow> \<not> is_full_seq r"
  by (cases r)
     (auto simp: is_dot_plus_def is_full_seq_def is_app_of_def is_plus_def is_unary_def
        is_re_concat_def is_binary_def split: list.splits if_splits)

lemma is_dot_plus_not_empty: "is_dot_plus r \<Longrightarrow> \<not> is_re_empty r"
  by (cases r)
     (auto simp: is_dot_plus_def is_re_empty_def is_app_of_def is_plus_def is_unary_def
        is_re_concat_def is_binary_def split: list.splits if_splits)

lemma is_dot_plus_not_epsilon: "is_dot_plus r \<Longrightarrow> \<not> is_epsilon r"
  by (cases r)
     (auto simp: is_dot_plus_def is_epsilon_def is_to_re_def is_app_of_def is_plus_def
        is_unary_def is_re_concat_def is_binary_def split: list.splits if_splits)

text \<open>
  C4, as the claim states it for the union, fails: the union of the regex of all
  non-empty words with the literal \<open>"a"\<close>, whose minimal length is 1, is normalised to
  the regex of all non-empty words, not to the literal.
\<close>

theorem union_dot_plus_counterexample:
  "0 < info_min_length (literal_info (mk_to_re (mk_string [97])))
   \<and> mk_regex_union_normalize literal_info (\<lambda>_. 0) (mk_re_plus mk_full_char)
        (mk_to_re (mk_string [97]))
      = mk_re_plus mk_full_char
   \<and> mk_re_plus mk_full_char \<noteq> mk_to_re (mk_string [97])"
  by (simp add: mk_regex_union_normalize_def literal_info_def re_recog_defs re_mk_defs
      recog_defs mk_defs)

text \<open>
  C4 (amended). Let \<open>D\<close> be a regex of all non-empty words and \<open>X\<close> a regex of which the
  host reports a minimal length of at least 1, the host reporting the minimal length 0 for
  the full sequence set and for the regex of the empty word. Then the normalised union
  of \<open>D\<close> and \<open>X\<close> is \<open>D\<close> (\<open>D\<close> absorbs \<open>X\<close>), and the normalised intersection of \<open>D\<close>
  and \<open>X\<close> is \<open>X\<close>.
\<close>

theorem normalize_dot_plus:
  assumes "is_dot_plus D"
    and "0 < info_min_length (get_info X)"
    and "\<And>r. is_full_seq r \<or> is_epsilon r \<Longrightarrow> info_min_length (get_info r) = 0"
  shows "mk_regex_union_normalize get_info get_id D X = D
         \<and> mk_regex_inter_normalize get_info get_id D X = X"
proof -
  from assms(2,3) have nf: "\<not> is_full_seq X" and ne: "\<not> is_epsilon X" by auto
  from assms(1) have d1: "\<not> is_full_seq D" and d2: "\<not> is_re_empty D" and d3: "\<not> is_epsilon D"
    by (simp_all add: is_dot_plus_not_full_seq is_dot_plus_not_empty is_dot_plus_not_epsilon)
  have u: "mk_regex_union_normalize get_info get_id D X = D"
    using assms(1,2) nf d1 d2 by (simp add: mk_regex_union_normalize_def Let_def)
  have i: "mk_regex_inter_normalize get_info get_id D X = X"
    using assms(1,2) nf ne d1 d2 d3 by (auto simp: mk_regex_inter_normalize_def Let_def)
  from u i show ?thesis by simp
qed

theorem normalize_dot_plus_witness:
  "is_dot_plus (mk_re_plus mk_full_char)
   \<and> 0 < info_min_length (literal_info (mk_to_re (mk_string [97])))
   \<and> mk_regex_union_normalize literal_info (\<lambda>_. 0) (mk_re_plus mk_full_char)
        (mk_to_re (mk_string [97])) = mk_re_plus mk_full_char
   \<and> mk_regex_inter_normalize literal_info (\<lambda>_. 0) (mk_re_plus mk_full_char)
        (mk_to_re (mk_string [97])) = mk_to_re (mk_string [97])"
proof -
  have d: "is_dot_plus (mk_re_plus mk_full_char)"
    by (simp add: re_recog_defs re_mk_defs recog_defs)
  have m: "0 < info_min_length (literal_info (mk_to_re (mk_string [97])))"
    by (simp add: literal_info_def re_recog_defs re_mk_defs recog_defs mk_defs)
  have z: "\<And>r. is_full_seq r \<or> is_epsilon r \<Longrightarrow> info_min_length (literal_info r) = 0"
    by (auto simp: literal_info_def is_epsilon_def is_full_seq_def is_app_of_def is_to_re_def
        is_unary_def is_empty_def is_string_def
        split: option.splits expr.splits list.splits if_splits)
  from normalize_dot_plus [where get_info = literal_info and D = "mk_re_plus mk_full_char"
      and X = "mk_to_re (mk_string [97])" and get_id = "\<lambda>_. 0", OF d m z] d m
  show ?thesis by simp
qed

subsection \<open>The derivative of a character range\<close>

lemmas path_defs = is_true_def is_false_def is_not_def is_eq_def is_and2_def is_or2_def
  is_char_le_def is_uninterp_const_def mk_ite_simplify_def mk_le_def const_pair_def
  is_char_const_range_def trivial_cond_def find_solution_def elim_condition_def
  simplify_path_def exclude_range_def is_binary_def is_ternary_def

lemmas deriv_recog_defs = is_reverse_def is_ite_def is_range_def is_dot_plus_def
  is_epsilon_def is_re_empty_def is_full_seq_def is_full_char_def

text \<open>
  For an element that is an uninterpreted constant of character sort, the guard
  \<open>a \<le> x \<and> x \<le> z\<close> of the range is eliminated by \<^verbatim>\<open>elim_condition\<close>: both conjuncts
  are bounds of the element, the ranges left are not empty, so the guard becomes
  \<open>true\<close>, and so does the path.
\<close>

lemma range_guard_uninterp:
  assumes "h_is_char H (mk_var x)" and "122 \<le> h_max_char H"
  shows "range_guard H (mk_var x) (mk_string [97]) (mk_string [122]) mk_true
           = Some (mk_true, mk_true)"
  using assms
  by (simp add: range_guard_def is_unit_string_def Let_def path_defs
        mk_defs recog_defs is_const_char_def mk_and_def)

text \<open>
  For an element that is a character constant the comparison is folded by
  \<^verbatim>\<open>u().mk_le\<close> and the derivative is the right one: the character \<open>0\<close> (code 48) is
  not in the range from \<open>a\<close> to \<open>z\<close>, and the derivative is the empty regex.
\<close>

lemma derivative_range_const_char:
  "mk_derivative (Suc n) example_host (mk_char 48)
     (mk_range (mk_string [97]) (mk_string [122])) = Some mk_re_empty"
  unfolding mk_derivative_def
  by (simp add: range_guard_def is_unit_string_def Let_def path_defs example_host_def
        mk_range_def re_recog_defs re_mk_defs recog_defs mk_defs deriv_recog_defs
        is_const_char_def mk_and_def mk_bool_val_def)

text \<open>
  Claim C1 (derivative correctness), at the input where the code departs from it. For
  an uninterpreted character constant \<open>x\<close> as element and the regex
  \<open>re.range "a" "z"\<close>, \<^verbatim>\<open>mk_derivative\<close> returns the regex of the empty word, with no
  condition on \<open>x\<close> left: the derivative accepts the empty word also when \<open>x\<close> is a
  character outside the range, such as \<open>0\<close>, although the one-letter word \<open>x\<close> is then
  not in the language of the range.
\<close>

theorem derivative_range_uninterp:
  assumes "h_is_char H (mk_var x)" and "122 \<le> h_max_char H"
  shows "mk_derivative (Suc n) H (mk_var x) (mk_range (mk_string [97]) (mk_string [122]))
           = Some mk_epsilon"
  unfolding mk_derivative_def
  using range_guard_uninterp [OF assms]
  by (simp add: mk_range_def re_recog_defs re_mk_defs recog_defs mk_defs path_defs
        deriv_recog_defs)

theorem derivative_range_uninterp_witness:
  "h_is_char example_host (mk_var ''x'') \<and> 122 \<le> h_max_char example_host \<and>
   mk_derivative 1 example_host (mk_var ''x'') (mk_range (mk_string [97]) (mk_string [122]))
     = Some mk_epsilon"
  using derivative_range_uninterp [of example_host "''x''" 0]
  by (simp add: example_host_def is_uninterp_const_def mk_var_def)

subsection \<open>Membership in a regex: the rules for prefix and suffix\<close>

lemma recog_re_concat:
  "is_re_concat (mk_re_concat x y) = Some (x, y)"
  "is_to_re (mk_re_concat x y) = None"
  "is_opt (mk_re_concat x y) = None"
  "is_union (mk_re_concat x y) = None"
  "\<not> is_re_empty (mk_re_concat x y)"
  "\<not> is_full_seq (mk_re_concat x y)"
  "is_to_re mk_full_seq = None"
  "is_full_seq mk_full_seq"
  "is_to_re (mk_to_re u) = Some u"
  "\<not> is_full_seq (mk_to_re u)"
  by (simp_all add: re_recog_defs re_mk_defs recog_defs deriv_recog_defs)

lemma lift_str_from_to_re_concat: "lift_str_from_to_re (mk_re_concat x y) = None"
  by (simp add: lift_str_from_to_re.simps re_recog_defs re_mk_defs recog_defs is_ite_def
        path_defs)

lemma in_re_literal_skip:
  "is_string a = None \<or> \<not> h_is_ground H b \<Longrightarrow> in_re_literal fuel H a b = Some None"
  by (auto simp: in_re_literal_def split: option.splits)

text \<open>
  The rule for a string literal and a ground regex comes first: when the derivatives
  by the characters of the literal end in a regex that the host knows to be nullable,
  the membership is rewritten to \<open>true\<close>, whatever the shape of the regex.
\<close>

lemma in_re_literal_first:
  assumes "is_string a = Some s" and "h_is_ground H b"
      and "derive_string fuel H s b = Some (Inr r)"
      and "info_nullable (h_get_info H r) = l_true"
      and "\<not> is_re_empty b" and "\<not> is_full_seq b"
  shows "mk_str_in_regexp fuel H a b = Some (BR_DONE mk_true)"
  using assms by (simp add: mk_str_in_regexp_def in_re_literal_def)

text \<open>
  No rule of \<^verbatim>\<open>mk_str_in_regexp\<close> recognises \<open>\<Sigma>* \<cdot> to_re(u) \<cdot> \<Sigma>*\<close>. For a term \<open>a\<close> with
  no first and no last element to split off, and a host that gives no fixed length to
  \<open>\<Sigma>*\<close> and to \<open>to_re(u) \<cdot> \<Sigma>*\<close>, every rule is passed and the rewriter fails.
\<close>

lemma in_re_contains_pattern_failed:
  assumes a: "is_string a = None" "\<not> is_empty a" "get_head_tail H a = None"
             "get_head_tail_reversed H a = None"
      and h1: "h_re_max_length H mk_full_seq \<noteq> h_re_min_length H mk_full_seq"
      and h2: "h_re_max_length H (mk_re_concat (mk_to_re u) mk_full_seq)
                 \<noteq> h_re_min_length H (mk_re_concat (mk_to_re u) mk_full_seq)"
  shows "mk_str_in_regexp fuel H a
           (mk_re_concat mk_full_seq (mk_re_concat (mk_to_re u) mk_full_seq)) = Some BR_FAILED"
proof -
  have g1: "get_re_head_tail H
              (mk_re_concat mk_full_seq (mk_re_concat (mk_to_re u) mk_full_seq)) = None"
    using h1 by (simp add: get_re_head_tail_def recog_re_concat)
  have g0: "get_re_head_tail_reversed H mk_full_seq = None"
    by (simp add: get_re_head_tail_reversed.simps re_recog_defs re_mk_defs recog_defs)
  have g2: "get_re_head_tail_reversed H (mk_re_concat (mk_to_re u) mk_full_seq) = None"
    using h1 g0
    by (subst get_re_head_tail_reversed.simps)
       (simp add: is_re_concat_def mk_re_concat_def recog_defs)
  have g3: "get_re_head_tail_reversed H
              (mk_re_concat mk_full_seq (mk_re_concat (mk_to_re u) mk_full_seq)) = None"
    using h2 g2
    by (subst get_re_head_tail_reversed.simps)
       (simp add: is_re_concat_def mk_re_concat_def recog_defs)
  show ?thesis
    unfolding mk_str_in_regexp_def
    by (simp add: in_re_literal_skip a lift_str_from_to_re_concat g1 g3 recog_re_concat)
qed

text \<open>
  Claim C2 as stated fails on the pattern with \<open>\<Sigma>*\<close> on both sides: for a variable \<open>a\<close>
  and the literal \<open>"a"\<close>, the membership of \<open>a\<close> in \<open>\<Sigma>* \<cdot> to_re("a") \<cdot> \<Sigma>*\<close> is not
  rewritten to \<open>contains(a, "a")\<close>; the rewriter answers \<^verbatim>\<open>BR_FAILED\<close>.
\<close>

theorem in_re_contains_counterexample:
  "mk_str_in_regexp 1 example_host (mk_var ''a'')
     (mk_re_concat mk_full_seq (mk_re_concat (mk_to_re (mk_string [97])) mk_full_seq))
     = Some BR_FAILED"
  by (rule in_re_contains_pattern_failed)
     (simp_all add: get_head_tail.simps get_head_tail_reversed.simps recog_defs mk_defs
        example_host_def UINT_MAX_def is_concat_def)

text \<open>
  Claim C2, amended: for every term \<open>u\<close> and every sequence term \<open>a\<close> that is not a string
  literal (or when the host does not take the regex for ground), the membership of \<open>a\<close>
  in \<open>to_re(u) \<cdot> \<Sigma>*\<close> is rewritten to \<open>prefix(u, a)\<close> and the membership of \<open>a\<close> in
  \<open>\<Sigma>* \<cdot> to_re(u)\<close> to \<open>suffix(u, a)\<close>, both with status \<^verbatim>\<open>BR_REWRITE1\<close> and whatever the
  bound on the nesting of derivative calls.
\<close>

theorem in_re_prefix_suffix:
  assumes "is_string a = None \<or> \<not> h_is_ground H (mk_re_concat (mk_to_re u) mk_full_seq)"
      and "is_string a = None \<or> \<not> h_is_ground H (mk_re_concat mk_full_seq (mk_to_re u))"
  shows "mk_str_in_regexp fuel H a (mk_re_concat (mk_to_re u) mk_full_seq)
           = Some (BR_REWRITE1 (mk_prefix u a))
       \<and> mk_str_in_regexp fuel H a (mk_re_concat mk_full_seq (mk_to_re u))
           = Some (BR_REWRITE1 (mk_suffix u a))"
proof
  show "mk_str_in_regexp fuel H a (mk_re_concat (mk_to_re u) mk_full_seq)
           = Some (BR_REWRITE1 (mk_prefix u a))"
    unfolding mk_str_in_regexp_def
    by (simp add: in_re_literal_skip [OF assms(1)] lift_str_from_to_re_concat
          recog_re_concat)
  show "mk_str_in_regexp fuel H a (mk_re_concat mk_full_seq (mk_to_re u))
           = Some (BR_REWRITE1 (mk_suffix u a))"
    unfolding mk_str_in_regexp_def
    by (simp add: in_re_literal_skip [OF assms(2)] lift_str_from_to_re_concat
          recog_re_concat)
qed

theorem in_re_prefix_suffix_witness:
  "is_string (mk_var ''a'') = None
   \<and> mk_str_in_regexp 1 example_host (mk_var ''a'')
       (mk_re_concat (mk_to_re (mk_string [97])) mk_full_seq)
     = Some (BR_REWRITE1 (mk_prefix (mk_string [97]) (mk_var ''a'')))
   \<and> mk_str_in_regexp 1 example_host (mk_var ''a'')
       (mk_re_concat mk_full_seq (mk_to_re (mk_string [97])))
     = Some (BR_REWRITE1 (mk_suffix (mk_string [97]) (mk_var ''a'')))"
  using in_re_prefix_suffix [of "mk_var ''a''" example_host "mk_string [97]" 1]
  by (simp add: recog_defs mk_defs)

end
